theory Spec2Isabelle
  imports Complex_Main "HOL-Library.Word"
begin

section \<open>UV camera: the split-view compositor and the recording state machine\<close>

text \<open>
  A shallow embedding of the React component \<^verbatim>\<open>UVCamera\<close>
  (\<^verbatim>\<open>src/components/UVCamera.tsx\<close>, and the earlier revision of the same component kept
  as \<^verbatim>\<open>unnamed/part_000\<close>). JavaScript numbers that hold pixel coordinates and sizes are
  exact reals here; the rounding of IEEE doubles is not modelled. The bytes of an
  \<^verbatim>\<open>ImageData\<close> buffer (a \<^verbatim>\<open>Uint8ClampedArray\<close>) are 8-bit words.
\<close>

subsection \<open>Typed arrays\<close>

type_synonym u8 = "8 word"

text \<open>
  Storing a number into a \<^verbatim>\<open>Uint8ClampedArray\<close> clamps it to 0..255 (the numbers stored
  by this program are integers, so no rounding is involved).
\<close>

definition toUint8Clamp :: "int \<Rightarrow> u8" where
  "toUint8Clamp n = (if n < 0 then 0 else if 255 < n then 255 else word_of_int n)"

text \<open>
  \<^verbatim>\<open>data[i] = 255 - data[i]\<close> on a typed array. An index past the end reads
  \<^verbatim>\<open>undefined\<close>, the difference is \<^verbatim>\<open>NaN\<close>, and the store is dropped: the array is
  unchanged and never grows.
\<close>

definition invertAt :: "u8 list \<Rightarrow> nat \<Rightarrow> u8 list" where
  "invertAt d i = (if i < length d then d[i := toUint8Clamp (255 - uint (d ! i))] else d)"

text \<open>
  STEP 4 of \<^verbatim>\<open>processFrame\<close>, the same text in both revisions:
  \<^verbatim>\<open>
  for (let i = 0; i < data.length; i += 4) {
    data[i] = 255 - data[i];         // R
    data[i + 1] = 255 - data[i + 1]; // G
    data[i + 2] = 255 - data[i + 2]; // B
  }
  \<close>
\<close>

function invertLoop :: "nat \<Rightarrow> u8 list \<Rightarrow> u8 list" where
  "invertLoop i d =
     (if i < length d
      then invertLoop (i + 4) (invertAt (invertAt (invertAt d i) (i + 1)) (i + 2))
      else d)"
  by pat_completeness auto
termination
  by (relation "measure (\<lambda>(i, d). length d - i)") (auto simp: invertAt_def)

declare invertLoop.simps [simp del]

definition invertFilter :: "u8 list \<Rightarrow> u8 list" where
  "invertFilter d = invertLoop 0 d"

text \<open>One turn of the loop, seen as a map on the pixel it visits.\<close>

definition invertPixel :: "u8 \<times> u8 \<times> u8 \<times> u8 \<Rightarrow> u8 \<times> u8 \<times> u8 \<times> u8" where
  "invertPixel p = (case p of (r, g, b, a) \<Rightarrow>
     (toUint8Clamp (255 - uint r), toUint8Clamp (255 - uint g), toUint8Clamp (255 - uint b), a))"

subsection \<open>The 2D canvas\<close>

text \<open>
  The bitmap of a canvas is an RGBA byte array in row-major order, laid out as
  \<^verbatim>\<open>ImageData.data\<close> is: byte \<open>k\<close> of pixel \<open>(x, y)\<close> is at index
  \<open>4 * (y * width + x) + k\<close>. \<^verbatim>\<open>getImageData\<close> and \<^verbatim>\<open>putImageData\<close> read and write
  these bytes. The canvas itself keeps premultiplied colours, so a pixel that is written
  with alpha 0 reads back as transparent black, a pixel written with alpha 255 reads back
  as written, and a pixel in between may lose colour bits; the bitmap of the model holds
  what \<^verbatim>\<open>getImageData\<close> reads.
\<close>

record imageData =
  iwidth :: nat
  iheight :: nat
  idata :: "u8 list"

record drawRect =
  drawX :: real
  drawY :: real
  drawWidth :: real
  drawHeight :: real

text \<open>
  The component only calls \<^verbatim>\<open>translate\<close> and \<^verbatim>\<open>scale\<close>, so the current transformation
  stays of the form \<open>x' = scaleX * x + shiftX\<close>, \<open>y' = scaleY * y + shiftY\<close>.
\<close>

record matrix =
  scaleX :: real
  scaleY :: real
  shiftX :: real
  shiftY :: real

definition identityMatrix :: matrix where
  "identityMatrix = \<lparr>scaleX = 1, scaleY = 1, shiftX = 0, shiftY = 0\<rparr>"

record drawState =
  fillStyle :: string
  transform :: matrix
  clip :: "drawRect option"
  shadowColor :: string
  shadowBlur :: real
  shadowOffsetX :: real
  shadowOffsetY :: real

definition defaultState :: drawState where
  "defaultState = \<lparr>fillStyle = ''#000000'', transform = identityMatrix, clip = None,
     shadowColor = ''rgba(0, 0, 0, 0)'', shadowBlur = 0, shadowOffsetX = 0,
     shadowOffsetY = 0\<rparr>"

datatype paint = VideoFrame | ProductImage | FillColor string

text \<open>
  One painting call (\<^verbatim>\<open>fillRect\<close> or \<^verbatim>\<open>drawImage\<close>) as the context received it: what is
  painted, the source rectangle of the nine-argument \<^verbatim>\<open>drawImage\<close>, the destination
  rectangle, and the drawing state (transformation, clip, shadow) in force.
\<close>

record drawCall =
  painted :: paint
  srcRect :: "drawRect option"
  dstRect :: drawRect
  under :: drawState

type_synonym rgba = "u8 \<times> u8 \<times> u8 \<times> u8"

text \<open>
  How the browser turns a painting call into pixels (resampling of the video frame,
  blending, shadows) is not code of this repository: it is a parameter, giving for a call,
  a pixel position and the pixel's old colour the pixel's new colour. Two things do not
  depend on the browser and are written into \<open>paintPixel\<close> below: painting with the
  default \<^verbatim>\<open>source-over\<close> blending leaves an opaque pixel opaque, and a pixel that lies
  inside a rectangle filled with an opaque colour takes that colour.
\<close>

type_synonym rasterizer = "drawCall \<Rightarrow> nat \<Rightarrow> nat \<Rightarrow> rgba \<Rightarrow> rgba"

text \<open>
  The canvas with its context: size, bitmap, the current drawing state, the stack of
  \<^verbatim>\<open>ctx.save()\<close>, and the painting calls received so far, in order.
\<close>

record canvas2d =
  cwidth :: nat
  cheight :: nat
  bitmap :: "u8 list"
  state :: drawState
  saved :: "drawState list"
  drawn :: "drawCall list"

definition channel :: "rgba \<Rightarrow> nat \<Rightarrow> u8" where
  "channel p k = (case p of (r, g, b, a) \<Rightarrow>
     if k = 0 then r else if k = 1 then g else if k = 2 then b else a)"

definition pixelAt :: "u8 list \<Rightarrow> nat \<Rightarrow> rgba" where
  "pixelAt d q = (d ! (4 * q), d ! (4 * q + 1), d ! (4 * q + 2), d ! (4 * q + 3))"

definition byteAt :: "canvas2d \<Rightarrow> nat \<Rightarrow> nat \<Rightarrow> nat \<Rightarrow> u8" where
  "byteAt c x y k = bitmap c ! (4 * (y * cwidth c + x) + k)"

definition pixelOf :: "canvas2d \<Rightarrow> nat \<Rightarrow> nat \<Rightarrow> rgba" where
  "pixelOf c x y = pixelAt (bitmap c) (y * cwidth c + x)"

definition alpha :: "rgba \<Rightarrow> u8" where
  "alpha p = (case p of (r, g, b, a) \<Rightarrow> a)"

text \<open>
  A canvas element as the JSX creates it: no size attributes, so 300 by 150 pixels of
  transparent black, and nothing painted yet.
\<close>

definition newCanvas :: canvas2d where
  "newCanvas = \<lparr>cwidth = 300, cheight = 150, bitmap = replicate (4 * 300 * 150) 0,
     state = defaultState, saved = [], drawn = []\<rparr>"

text \<open>
  What reads back of a pixel that \<^verbatim>\<open>putImageData\<close> wrote: the colour is multiplied by
  alpha when it is stored and divided by it when it is read (rounded to nearest here), and
  alpha itself is kept.
\<close>

definition premultiply :: "u8 \<Rightarrow> u8 \<Rightarrow> u8" where
  "premultiply v a = of_nat ((unat v * unat a + 127) div 255)"

definition unpremultiply :: "u8 \<Rightarrow> u8 \<Rightarrow> u8" where
  "unpremultiply m a = of_nat (min 255 ((unat m * 255 + unat a div 2) div unat a))"

definition stored :: "rgba \<Rightarrow> rgba" where
  "stored p = (case p of (r, g, b, a) \<Rightarrow>
     if a = 255 then (r, g, b, a)
     else if a = 0 then (0, 0, 0, 0)
     else (unpremultiply (premultiply r a) a, unpremultiply (premultiply g a) a,
           unpremultiply (premultiply b a) a, a))"

text \<open>A colour of the form \<^verbatim>\<open>#rrggbb\<close>, which is opaque; other colour strings are left to the browser.\<close>

definition hexDigit :: "char \<Rightarrow> nat option" where
  "hexDigit ch =
     (let n = (of_char ch :: nat)
      in if 48 \<le> n \<and> n \<le> 57 then Some (n - 48)
         else if 97 \<le> n \<and> n \<le> 102 then Some (n - 87)
         else if 65 \<le> n \<and> n \<le> 70 then Some (n - 55)
         else None)"

definition hexByte :: "char \<Rightarrow> char \<Rightarrow> u8 option" where
  "hexByte hi lo =
     (case hexDigit hi of
        None \<Rightarrow> None
      | Some h \<Rightarrow> (case hexDigit lo of None \<Rightarrow> None | Some l \<Rightarrow> Some (of_nat (16 * h + l))))"

definition cssColor :: "string \<Rightarrow> rgba option" where
  "cssColor str =
     (case str of
        [hash, r1, r2, g1, g2, b1, b2] \<Rightarrow>
          (if hash = CHR ''#''
           then (case hexByte r1 r2 of
                   None \<Rightarrow> None
                 | Some r \<Rightarrow>
                     (case hexByte g1 g2 of
                        None \<Rightarrow> None
                      | Some g \<Rightarrow>
                          (case hexByte b1 b2 of
                             None \<Rightarrow> None
                           | Some b \<Rightarrow> Some (r, g, b, 255))))
           else None)
      | _ \<Rightarrow> None)"

text \<open>
  Assigning \<^verbatim>\<open>canvas.width\<close> or \<^verbatim>\<open>canvas.height\<close> clears the bitmap to transparent black
  and resets the context to its default state, also when the value does not change.
\<close>

definition setWidth :: "nat \<Rightarrow> canvas2d \<Rightarrow> canvas2d" where
  "setWidth w c = c\<lparr>cwidth := w, bitmap := replicate (4 * w * cheight c) 0,
     state := defaultState, saved := []\<rparr>"

definition setHeight :: "nat \<Rightarrow> canvas2d \<Rightarrow> canvas2d" where
  "setHeight h c = c\<lparr>cheight := h, bitmap := replicate (4 * cwidth c * h) 0,
     state := defaultState, saved := []\<rparr>"

definition save :: "canvas2d \<Rightarrow> canvas2d" where
  "save c = c\<lparr>saved := state c # saved c\<rparr>"

definition restore :: "canvas2d \<Rightarrow> canvas2d" where
  "restore c = (case saved c of [] \<Rightarrow> c | st # rest \<Rightarrow> c\<lparr>state := st, saved := rest\<rparr>)"

definition translate :: "real \<Rightarrow> real \<Rightarrow> canvas2d \<Rightarrow> canvas2d" where
  "translate tx ty c =
     (let m = transform (state c)
      in c\<lparr>state := (state c)\<lparr>transform :=
           m\<lparr>shiftX := shiftX m + scaleX m * tx, shiftY := shiftY m + scaleY m * ty\<rparr>\<rparr>\<rparr>)"

definition scale :: "real \<Rightarrow> real \<Rightarrow> canvas2d \<Rightarrow> canvas2d" where
  "scale kx ky c =
     (let m = transform (state c)
      in c\<lparr>state := (state c)\<lparr>transform :=
           m\<lparr>scaleX := scaleX m * kx, scaleY := scaleY m * ky\<rparr>\<rparr>\<rparr>)"

text \<open>The image of a rectangle under the current transformation, in canvas pixels.\<close>

definition deviceRect :: "matrix \<Rightarrow> drawRect \<Rightarrow> drawRect" where
  "deviceRect m r =
     (let x1 = scaleX m * drawX r + shiftX m; x2 = scaleX m * (drawX r + drawWidth r) + shiftX m;
          y1 = scaleY m * drawY r + shiftY m; y2 = scaleY m * (drawY r + drawHeight r) + shiftY m
      in \<lparr>drawX = min x1 x2, drawY = min y1 y2, drawWidth = \<bar>x2 - x1\<bar>, drawHeight = \<bar>y2 - y1\<bar>\<rparr>)"

definition intersectRect :: "drawRect \<Rightarrow> drawRect \<Rightarrow> drawRect" where
  "intersectRect r s =
     (let x1 = max (drawX r) (drawX s); y1 = max (drawY r) (drawY s);
          x2 = min (drawX r + drawWidth r) (drawX s + drawWidth s);
          y2 = min (drawY r + drawHeight r) (drawY s + drawHeight s)
      in \<lparr>drawX = x1, drawY = y1, drawWidth = max 0 (x2 - x1), drawHeight = max 0 (y2 - y1)\<rparr>)"

text \<open>\<^verbatim>\<open>ctx.beginPath(); ctx.rect(x, y, w, h); ctx.clip();\<close>\<close>

definition clipRect :: "real \<Rightarrow> real \<Rightarrow> real \<Rightarrow> real \<Rightarrow> canvas2d \<Rightarrow> canvas2d" where
  "clipRect x y w h c =
     (let r = deviceRect (transform (state c))
                \<lparr>drawX = x, drawY = y, drawWidth = w, drawHeight = h\<rparr>;
          r' = (case clip (state c) of None \<Rightarrow> r | Some old \<Rightarrow> intersectRect old r)
      in c\<lparr>state := (state c)\<lparr>clip := Some r'\<rparr>\<rparr>)"

text \<open>A pixel is painted only where the clipping region contains it.\<close>

definition inClip :: "drawRect option \<Rightarrow> nat \<Rightarrow> nat \<Rightarrow> bool" where
  "inClip cl x y = (case cl of None \<Rightarrow> True
     | Some r \<Rightarrow> drawX r \<le> real x \<and> real x + 1 \<le> drawX r + drawWidth r \<and>
                drawY r \<le> real y \<and> real y + 1 \<le> drawY r + drawHeight r)"

text \<open>
  The colour a pixel takes from a \<^verbatim>\<open>fillRect\<close> with an opaque fill style, when the pixel
  lies inside the filled rectangle.
\<close>

definition solidFill :: "drawCall \<Rightarrow> nat \<Rightarrow> nat \<Rightarrow> rgba option" where
  "solidFill call x y =
     (case painted call of
        FillColor str \<Rightarrow>
          (if inClip (Some (deviceRect (transform (under call)) (dstRect call))) x y
           then cssColor str else None)
      | VideoFrame \<Rightarrow> None
      | ProductImage \<Rightarrow> None)"

text \<open>
  The new colour of a pixel inside the clip: the fill colour where it applies, and the
  browser's colour otherwise, opaque when the pixel was opaque and transparent black when
  it comes out with alpha 0.
\<close>

definition paintPixel :: "rasterizer \<Rightarrow> drawCall \<Rightarrow> nat \<Rightarrow> nat \<Rightarrow> rgba \<Rightarrow> rgba" where
  "paintPixel rz call x y old =
     (case solidFill call x y of
        Some colour \<Rightarrow> colour
      | None \<Rightarrow>
          (case rz call x y old of
             (r, g, b, a) \<Rightarrow>
               if alpha old = 255 then (r, g, b, 255)
               else if a = 0 then (0, 0, 0, 0)
               else (r, g, b, a)))"

definition rasterize :: "rasterizer \<Rightarrow> drawCall \<Rightarrow> canvas2d \<Rightarrow> u8 list" where
  "rasterize rz call c =
     map (\<lambda>i. let q = i div 4; x = q mod cwidth c; y = q div cwidth c
               in if inClip (clip (state c)) x y
                  then channel (paintPixel rz call x y (pixelAt (bitmap c) q)) (i mod 4)
                  else bitmap c ! i)
         [0..<length (bitmap c)]"

definition paintCall :: "rasterizer \<Rightarrow> paint \<Rightarrow> drawRect option \<Rightarrow> drawRect \<Rightarrow> canvas2d \<Rightarrow> canvas2d" where
  "paintCall rz p src dst c =
     (let call = \<lparr>painted = p, srcRect = src, dstRect = dst, under = state c\<rparr>
      in c\<lparr>bitmap := rasterize rz call c, drawn := drawn c @ [call]\<rparr>)"

definition fillRect :: "rasterizer \<Rightarrow> real \<Rightarrow> real \<Rightarrow> real \<Rightarrow> real \<Rightarrow> canvas2d \<Rightarrow> canvas2d" where
  "fillRect rz x y w h c =
     paintCall rz (FillColor (fillStyle (state c))) None
       \<lparr>drawX = x, drawY = y, drawWidth = w, drawHeight = h\<rparr> c"

text \<open>
  \<^verbatim>\<open>drawImage\<close> returns without painting when an argument is \<^verbatim>\<open>NaN\<close> or infinite; such a
  destination is \<open>None\<close> here.
\<close>

definition drawImage :: "rasterizer \<Rightarrow> paint \<Rightarrow> drawRect option \<Rightarrow> drawRect option \<Rightarrow> canvas2d \<Rightarrow> canvas2d" where
  "drawImage rz p src dst c = (case dst of None \<Rightarrow> c | Some r \<Rightarrow> paintCall rz p src r c)"

text \<open>
  \<^verbatim>\<open>getImageData(sx, sy, sw, sh)\<close>: a copy of the pixels of the rectangle, transparent
  black where the rectangle leaves the canvas. (It throws when \<open>sw\<close> or \<open>sh\<close> is zero; the
  callers below check that first.)
\<close>

definition getImageData :: "canvas2d \<Rightarrow> nat \<Rightarrow> nat \<Rightarrow> nat \<Rightarrow> nat \<Rightarrow> imageData" where
  "getImageData c sx sy sw sh =
     \<lparr>iwidth = sw, iheight = sh,
      idata = map (\<lambda>i. let x = sx + (i div 4) mod sw; y = sy + (i div 4) div sw
                        in if x < cwidth c \<and> y < cheight c
                           then bitmap c ! (4 * (y * cwidth c + x) + i mod 4) else 0)
                  [0..<4 * sw * sh]\<rparr>"

text \<open>
  \<^verbatim>\<open>putImageData(img, dx, dy)\<close>: the pixels of \<open>img\<close> replace those of the canvas from
  \<open>(dx, dy)\<close> on, whatever the transformation, the clip and the blending are; each reads
  back as \<open>stored\<close> says.
\<close>

definition putImageData :: "imageData \<Rightarrow> nat \<Rightarrow> nat \<Rightarrow> canvas2d \<Rightarrow> canvas2d" where
  "putImageData img dx dy c =
     c\<lparr>bitmap :=
         map (\<lambda>i. let x = (i div 4) mod cwidth c; y = (i div 4) div cwidth c
                   in if dx \<le> x \<and> x < dx + iwidth img \<and> dy \<le> y \<and> y < dy + iheight img
                      then channel (stored (pixelAt (idata img)
                                     ((y - dy) * iwidth img + (x - dx)))) (i mod 4)
                      else bitmap c ! i)
             [0..<length (bitmap c)]\<rparr>"

subsection \<open>\<^verbatim>\<open>processFrame\<close> of \<^verbatim>\<open>UVCamera.tsx\<close>\<close>

datatype facing = User | Environment

record videoElement =
  readyState :: nat
  videoWidth :: nat
  videoHeight :: nat

definition HAVE_ENOUGH_DATA :: nat where
  "HAVE_ENOUGH_DATA = 4"

record htmlImage =
  naturalWidth :: nat
  naturalHeight :: nat

text \<open>
  What \<^verbatim>\<open>renderSplitView\<close> closes over: the video element, the facing mode, the product
  image (\<open>None\<close> until its \<^verbatim>\<open>onload\<close> has run) and the browser's rasterizer.
\<close>

record renderEnv =
  video :: videoElement
  facing :: facing
  productImageRef :: "htmlImage option"
  raster :: rasterizer

definition STORY_WIDTH :: nat where
  "STORY_WIDTH = 1080"

definition STORY_HEIGHT :: nat where
  "STORY_HEIGHT = 1920"

text \<open>\<^verbatim>\<open>STORY_HEIGHT / 2\<close>; the height is even, so this is the integer 960.\<close>

definition halfHeight :: nat where
  "halfHeight = STORY_HEIGHT div 2"

definition targetAspect :: real where
  "targetAspect = real STORY_WIDTH / real halfHeight"

text \<open>
  Lines 139 to 157: the rectangle the video is drawn into. A video without width or height
  makes \<^verbatim>\<open>vw / vh\<close> zero, infinite or \<^verbatim>\<open>NaN\<close>, and then one of the four numbers is not
  finite.
\<close>

definition fitVideo :: "nat \<Rightarrow> nat \<Rightarrow> drawRect option" where
  "fitVideo vw vh =
     (if vw = 0 \<or> vh = 0 then None
      else let videoAspect = real vw / real vh
           in if videoAspect > targetAspect
              then Some \<lparr>drawX = (real STORY_WIDTH - real halfHeight * videoAspect) / 2,
                         drawY = 0,
                         drawWidth = real halfHeight * videoAspect,
                         drawHeight = real halfHeight\<rparr>
              else Some \<lparr>drawX = 0,
                         drawY = (real halfHeight - real STORY_WIDTH / videoAspect) / 2,
                         drawWidth = real STORY_WIDTH,
                         drawHeight = real STORY_WIDTH / videoAspect\<rparr>)"

text \<open>Lines 134 to 174: the canvas is sized and cleared, and the video drawn (STEP 1).\<close>

definition cameraLayer :: "renderEnv \<Rightarrow> canvas2d \<Rightarrow> canvas2d" where
  "cameraLayer env c0 =
     (let rz = raster env;
          c = setHeight STORY_HEIGHT (setWidth STORY_WIDTH c0);
          c = c\<lparr>state := (state c)\<lparr>fillStyle := ''#000000''\<rparr>\<rparr>;
          c = fillRect rz 0 0 (real STORY_WIDTH) (real STORY_HEIGHT) c;
          c = save c;
          c = clipRect 0 0 (real STORY_WIDTH) (real halfHeight) c;
          c = (if facing env = User then scale (- 1) 1 (translate (real STORY_WIDTH) 0 c) else c);
          c = drawImage rz VideoFrame None
                (fitVideo (videoWidth (video env)) (videoHeight (video env))) c
      in restore c)"

text \<open>
  STEP 2 and STEP 3, the same text in both revisions up to the names of the width
  (\<^verbatim>\<open>STORY_WIDTH\<close>, \<^verbatim>\<open>vw\<close>): the pixels of the top half are read and written to the bottom
  half.
\<close>

definition copyTopToBottom :: "nat \<Rightarrow> nat \<Rightarrow> canvas2d \<Rightarrow> canvas2d" where
  "copyTopToBottom w hh c =
     (let topHalfPixels = getImageData c 0 0 w hh
      in putImageData topHalfPixels 0 hh c)"

text \<open>STEP 4: the top half is read again, inverted in place and written back.\<close>

definition invertTop :: "nat \<Rightarrow> nat \<Rightarrow> canvas2d \<Rightarrow> canvas2d" where
  "invertTop w hh c =
     (let topImageData = getImageData c 0 0 w hh;
          topImageData = topImageData\<lparr>idata := invertFilter (idata topImageData)\<rparr>
      in putImageData topImageData 0 0 c)"

text \<open>The canvas at line 192, before the product image is drawn.\<close>

definition splitView :: "renderEnv \<Rightarrow> canvas2d \<Rightarrow> canvas2d" where
  "splitView env c0 =
     invertTop STORY_WIDTH halfHeight (copyTopToBottom STORY_WIDTH halfHeight (cameraLayer env c0))"

text \<open>
  Lines 197 to 205. An image of natural height zero gives a width that is not finite.
\<close>

definition productRect :: "htmlImage \<Rightarrow> drawRect option" where
  "productRect img =
     (if naturalHeight img = 0 then None
      else let aspectRatio = real (naturalWidth img) / real (naturalHeight img);
               productHeight = real STORY_HEIGHT * (18 / 100);
               productWidth = productHeight * aspectRatio;
               productX = (real STORY_WIDTH - productWidth) / 2 - real STORY_WIDTH * (18 / 100);
               productY = real halfHeight - productHeight / 2
           in Some \<lparr>drawX = productX, drawY = productY,
                     drawWidth = productWidth, drawHeight = productHeight\<rparr>)"

text \<open>Lines 194 to 220: the product image, with a shadow that is reset afterwards.\<close>

definition drawProduct :: "renderEnv \<Rightarrow> canvas2d \<Rightarrow> canvas2d" where
  "drawProduct env c =
     (case productImageRef env of
        None \<Rightarrow> c
      | Some img \<Rightarrow>
          let c = c\<lparr>state := (state c)\<lparr>shadowColor := ''rgba(0, 0, 0, 0.5)'', shadowBlur := 20,
                      shadowOffsetX := 4, shadowOffsetY := 4\<rparr>\<rparr>;
              c = drawImage (raster env) ProductImage None (productRect img) c
          in c\<lparr>state := (state c)\<lparr>shadowColor := ''transparent'', shadowBlur := 0,
                   shadowOffsetX := 0, shadowOffsetY := 0\<rparr>\<rparr>)"

text \<open>
  One run of \<^verbatim>\<open>processFrame\<close>. (It then asks for the next animation frame, whatever the
  ready state was.)
\<close>

definition processFrame :: "renderEnv \<Rightarrow> canvas2d \<Rightarrow> canvas2d" where
  "processFrame env c0 =
     (if readyState (video env) = HAVE_ENOUGH_DATA
      then drawProduct env (splitView env c0)
      else c0)"

subsection \<open>\<^verbatim>\<open>processFrame\<close> of the earlier revision (\<^verbatim>\<open>unnamed/part_000\<close>)\<close>

text \<open>
  The canvas takes the size of the video, the half height is \<^verbatim>\<open>Math.floor(vh / 2)\<close>, the
  whole video is scaled into the top half with the nine-argument \<^verbatim>\<open>drawImage\<close>, and there
  is no clip and no background fill. \<^verbatim>\<open>drawImage\<close> paints nothing when the source
  rectangle is empty or when \<^verbatim>\<open>vw / vh\<close> is not finite.
\<close>

datatype domException = IndexSizeError

definition cameraLayer_part000 :: "renderEnv \<Rightarrow> canvas2d \<Rightarrow> canvas2d" where
  "cameraLayer_part000 env c0 =
     (let rz = raster env;
          vw = videoWidth (video env);
          vh = videoHeight (video env);
          c = setHeight vh (setWidth vw c0);
          halfHeight = vh div 2;
          videoAspect = real vw / real vh;
          scaledWidth = real halfHeight * videoAspect;
          offsetX = (real vw - scaledWidth) / 2;
          c = save c;
          c = (if facing env = User then scale (- 1) 1 (translate (real vw) 0 c) else c);
          c = drawImage rz VideoFrame
                (Some \<lparr>drawX = 0, drawY = 0, drawWidth = real vw, drawHeight = real vh\<rparr>)
                (if vw = 0 \<or> vh = 0 then None
                 else Some \<lparr>drawX = offsetX, drawY = 0, drawWidth = scaledWidth,
                            drawHeight = real halfHeight\<rparr>) c
      in restore c)"

text \<open>
  STEP 2 to STEP 4. \<^verbatim>\<open>getImageData(0, 0, vw, halfHeight)\<close> throws an
  \<^verbatim>\<open>IndexSizeError\<close> for a video less than two pixels high or without width.
\<close>

definition splitView_part000 :: "renderEnv \<Rightarrow> canvas2d \<Rightarrow> domException + canvas2d" where
  "splitView_part000 env c0 =
     (let vw = videoWidth (video env);
          halfHeight = videoHeight (video env) div 2;
          c = cameraLayer_part000 env c0
      in if vw = 0 \<or> halfHeight = 0 then Inl IndexSizeError
         else Inr (invertTop vw halfHeight (copyTopToBottom vw halfHeight c)))"

definition productRect_part000 :: "nat \<Rightarrow> nat \<Rightarrow> htmlImage \<Rightarrow> drawRect option" where
  "productRect_part000 vw vh img =
     (if naturalHeight img = 0 then None
      else let aspectRatio = real (naturalWidth img) / real (naturalHeight img);
               productHeight = real vh * (20 / 100);
               productWidth = productHeight * aspectRatio;
               productX = (real vw - productWidth) / 2 - real vw * (8 / 100);
               productY = real (vh div 2) - productHeight / 2
           in Some \<lparr>drawX = productX, drawY = productY,
                     drawWidth = productWidth, drawHeight = productHeight\<rparr>)"

definition drawProduct_part000 :: "renderEnv \<Rightarrow> canvas2d \<Rightarrow> canvas2d" where
  "drawProduct_part000 env c =
     (case productImageRef env of
        None \<Rightarrow> c
      | Some img \<Rightarrow>
          let c = c\<lparr>state := (state c)\<lparr>shadowColor := ''rgba(0, 0, 0, 0.6)'', shadowBlur := 25,
                      shadowOffsetX := 5, shadowOffsetY := 5\<rparr>\<rparr>;
              c = drawImage (raster env) ProductImage None
                    (productRect_part000 (videoWidth (video env)) (videoHeight (video env)) img) c
          in c\<lparr>state := (state c)\<lparr>shadowColor := ''transparent'', shadowBlur := 0\<rparr>\<rparr>)"

definition processFrame_part000 :: "renderEnv \<Rightarrow> canvas2d \<Rightarrow> domException + canvas2d" where
  "processFrame_part000 env c0 =
     (if readyState (video env) = HAVE_ENOUGH_DATA
      then (case splitView_part000 env c0 of
              Inl e \<Rightarrow> Inl e
            | Inr c \<Rightarrow> Inr (drawProduct_part000 env c))
      else Inr c0)"

subsection \<open>Streams, blobs and the recorder\<close>

datatype trackKind = AudioTrack | VideoTrack

text \<open>
  A track of the camera stream (its kind and an identifier), or the video track that
  \<^verbatim>\<open>canvas.captureStream(frameRate)\<close> creates: it carries the canvas element it captures
  (canvas elements are told apart by a number) and the frame rate.
\<close>

datatype track = CameraTrack trackKind nat | CanvasCaptureTrack nat nat

type_synonym mediaStream = "track list"

definition isAudio :: "track \<Rightarrow> bool" where
  "isAudio t = (case t of CameraTrack k _ \<Rightarrow> k = AudioTrack | CanvasCaptureTrack _ _ \<Rightarrow> False)"

definition getAudioTracks :: "mediaStream \<Rightarrow> track list" where
  "getAudioTracks st = filter isAudio st"

text \<open>\<^verbatim>\<open>addTrack\<close> does nothing when the stream has the track already.\<close>

definition addTrack :: "track \<Rightarrow> mediaStream \<Rightarrow> mediaStream" where
  "addTrack t st = (if t \<in> set st then st else st @ [t])"

definition captureStream :: "nat \<Rightarrow> nat \<Rightarrow> mediaStream" where
  "captureStream canvas frameRate = [CanvasCaptureTrack canvas frameRate]"

record blob =
  blobData :: "nat list"
  blobType :: string

definition newBlob :: "blob list \<Rightarrow> string \<Rightarrow> blob" where
  "newBlob parts ty = \<lparr>blobData = concat (map blobData parts), blobType = ty\<rparr>"

datatype url = ObjectURL blob

datatype recorderState = RecInactive | RecRecording | RecPaused

record mediaRecorder =
  recStream :: mediaStream
  mimeType :: string
  recState :: recorderState
  timeslice :: "nat option"
  timerInterval :: bool

text \<open>
  The loaded FFmpeg instance, as far as \<^verbatim>\<open>convertToMp4\<close> uses it: writing the input,
  running the transcoder, reading the output and deleting both files either gives the
  bytes of \<^verbatim>\<open>output.mp4\<close> or rejects with a message.
\<close>

type_synonym ffmpeg = "blob \<Rightarrow> string + nat list"

definition convertToMp4 :: "ffmpeg option \<Rightarrow> blob \<Rightarrow> string + blob" where
  "convertToMp4 ffmpegRef webmBlob =
     (case ffmpegRef of
        None \<Rightarrow> Inl ''FFmpeg not loaded''
      | Some ffmpeg \<Rightarrow>
          (case ffmpeg webmBlob of
             Inl err \<Rightarrow> Inl err
           | Inr mp4Data \<Rightarrow> Inr \<lparr>blobData = mp4Data, blobType = ''video/mp4''\<rparr>))"

subsection \<open>The component\<close>

datatype RecordingState = Idle | Recording | Preview | Converting

record jsFile =
  fileBlob :: blob
  fileType :: string

text \<open>
  The part of \<^verbatim>\<open>navigator\<close> that \<^verbatim>\<open>shareVideo\<close> touches: whether \<^verbatim>\<open>navigator.share\<close> is
  defined, and \<^verbatim>\<open>navigator.canShare\<close> (\<open>None\<close> in a browser that does not define it).
\<close>

record navigator =
  hasShare :: bool
  canShare :: "(jsFile \<Rightarrow> bool) option"

datatype effect = Shared jsFile | Downloaded url | Revoked url

datatype jsError = TypeError

text \<open>
  The state and the refs of the component, and what the browser holds for it:
  \<^item> whether \<^verbatim>\<open>MediaRecorder\<close> accepts the VP9 WebM type, whether the recorder's \<^verbatim>\<open>stop\<close>
    event is queued, and the conversion the \<^verbatim>\<open>onstop\<close> handler is waiting for (the WebM
    blob and what \<^verbatim>\<open>convertToMp4\<close> will settle with);
  \<^item> the canvas elements created so far with what has been drawn on them, the number of
    the next one, and the one that is mounted (\<^verbatim>\<open>combinedCanvasRef.current\<close>);
  \<^item> the animation loop that \<^verbatim>\<open>renderSplitView\<close> started: the canvas and the facing mode
    its \<^verbatim>\<open>processFrame\<close> closed over (\<open>None\<close> after \<^verbatim>\<open>cancelAnimationFrame\<close>);
  \<^item> the tracks that have been stopped (a track object is shared by every stream it was
    added to, so its state is kept here and not in the streams);
  \<^item> the calls of \<^verbatim>\<open>getUserMedia\<close> that have not settled, each with the facing mode of the
    \<^verbatim>\<open>startCamera\<close> that made it, and the \<^verbatim>\<open>onloadedmetadata\<close> handler that waits for the
    metadata of the stream attached last.
  \<open>effects\<close> lists what left the component (files shared, downloads started, URLs
  revoked).
\<close>

record component =
  recordingState :: RecordingState
  recordedVideoUrl :: "url option"
  recordingTime :: nat
  cameraReady :: bool
  facingMode :: facing
  ffmpegLoaded :: bool
  convertProgress :: nat
  mediaRecorderRef :: "mediaRecorder option"
  chunksRef :: "blob list"
  streamRef :: "mediaStream option"
  ffmpegRef :: "ffmpeg option"
  mp4BlobRef :: "blob option"
  vp9Supported :: bool
  stopQueued :: bool
  conversion :: "(blob \<times> (string + blob)) option"
  effects :: "effect list"
  combinedCanvasRef :: "nat option"
  canvases :: "nat \<Rightarrow> canvas2d"
  nextCanvas :: nat
  renderLoop :: "(nat \<times> facing) option"
  endedTracks :: "track list"
  cameraRequests :: "facing list"
  metadataHandler :: "facing option"

definition initial :: "bool \<Rightarrow> component" where
  "initial vp9 =
     \<lparr>recordingState = Idle, recordedVideoUrl = None, recordingTime = 0, cameraReady = False,
      facingMode = User, ffmpegLoaded = False, convertProgress = 0, mediaRecorderRef = None,
      chunksRef = [], streamRef = None, ffmpegRef = None, mp4BlobRef = None,
      vp9Supported = vp9, stopQueued = False, conversion = None, effects = [],
      combinedCanvasRef = Some 0, canvases = (\<lambda>n. newCanvas), nextCanvas = 1,
      renderLoop = None, endedTracks = [], cameraRequests = [User], metadataHandler = None\<rparr>"

text \<open>
  The component is mounted with its first render: canvas element 0 is on the screen and
  the effect has called \<^verbatim>\<open>startCamera\<close> for the front camera.

  The JSX renders the preview screen when the state is \<^verbatim>\<open>'preview'\<close> and a URL is set, and
  the camera view with the canvas otherwise.
\<close>

definition previewShown :: "component \<Rightarrow> bool" where
  "previewShown s = (recordingState s = Preview \<and> recordedVideoUrl s \<noteq> None)"

text \<open>
  The render that follows a change of state. The \<^verbatim>\<open><canvas>\<close> is in the branch of the
  ternary that is not the preview: showing the preview unmounts it (the ref becomes
  \<^verbatim>\<open>null\<close>), and leaving the preview mounts a new canvas element.
\<close>

definition rerender :: "component \<Rightarrow> component" where
  "rerender s =
     (if previewShown s then s\<lparr>combinedCanvasRef := None\<rparr>
      else case combinedCanvasRef s of
        Some canvas \<Rightarrow> s
      | None \<Rightarrow> s\<lparr>combinedCanvasRef := Some (nextCanvas s), nextCanvas := Suc (nextCanvas s)\<rparr>)"

text \<open>
  \<^verbatim>\<open>renderSplitView\<close>, called by the \<^verbatim>\<open>onloadedmetadata\<close> handler: it reads
  \<^verbatim>\<open>combinedCanvasRef.current\<close> once, returns when there is none, and otherwise starts the
  loop of \<^verbatim>\<open>processFrame\<close> on that canvas. (Only the loop started last is kept here.)
\<close>

definition renderSplitView :: "facing \<Rightarrow> component \<Rightarrow> component" where
  "renderSplitView f s =
     (case combinedCanvasRef s of
        None \<Rightarrow> s
      | Some canvas \<Rightarrow> s\<lparr>renderLoop := Some (canvas, f)\<rparr>)"

text \<open>
  \<^verbatim>\<open>startRecording\<close> (the same text in both revisions up to the \<^verbatim>\<open>onstop\<close> handler). The
  \<^verbatim>\<open>MediaRecorder\<close> constructor throws for a type the browser cannot record; the chunks
  have been cleared by then and nothing else has changed.
\<close>

definition startRecording :: "component \<Rightarrow> component" where
  "startRecording s =
     (case combinedCanvasRef s of
        None \<Rightarrow> s
      | Some canvas \<Rightarrow>
          (case streamRef s of
             None \<Rightarrow> s
           | Some stream \<Rightarrow>
               let s = s\<lparr>chunksRef := []\<rparr>;
                   canvasStream = captureStream canvas 30;
                   audioTracks = getAudioTracks stream;
                   canvasStream = foldl (\<lambda>st t. addTrack t st) canvasStream audioTracks
               in if \<not> vp9Supported s then s
                  else s\<lparr>mediaRecorderRef :=
                           Some \<lparr>recStream = canvasStream, mimeType = ''video/webm;codecs=vp9'',
                                 recState = RecRecording, timeslice = Some 100,
                                 timerInterval = True\<rparr>,
                         recordingState := Recording\<rparr>))"

definition stopRecording :: "component \<Rightarrow> component" where
  "stopRecording s =
     (case mediaRecorderRef s of
        None \<Rightarrow> s
      | Some r \<Rightarrow>
          if recState r \<noteq> RecInactive
          then s\<lparr>mediaRecorderRef := Some (r\<lparr>recState := RecInactive, timerInterval := False\<rparr>),
                 stopQueued := True, recordingTime := 0\<rparr>
          else s)"

text \<open>\<^verbatim>\<open>ondataavailable\<close>: empty chunks are dropped.\<close>

definition ondataavailable :: "blob \<Rightarrow> component \<Rightarrow> component" where
  "ondataavailable d s = (if 0 < length (blobData d) then s\<lparr>chunksRef := chunksRef s @ [d]\<rparr> else s)"

text \<open>
  The \<^verbatim>\<open>onstop\<close> handler up to its \<^verbatim>\<open>await\<close>: the state becomes \<^verbatim>\<open>'converting'\<close> and
  \<^verbatim>\<open>convertToMp4\<close> is called.
\<close>

definition onstopBegin :: "component \<Rightarrow> component" where
  "onstopBegin s =
     (let webmBlob = newBlob (chunksRef s) ''video/webm''
      in s\<lparr>recordingState := Converting, convertProgress := 0,
            conversion := Some (webmBlob, convertToMp4 (ffmpegRef s) webmBlob)\<rparr>)"

text \<open>
  The rest of the handler, once the conversion has settled: \<^verbatim>\<open>try\<close> or \<^verbatim>\<open>catch\<close>, and
  the render that follows.
\<close>

definition onstopSettle :: "component \<Rightarrow> component" where
  "onstopSettle s =
     (case conversion s of
        None \<Rightarrow> s
      | Some (webmBlob, result) \<Rightarrow>
          (case result of
             Inr mp4Blob \<Rightarrow>
               rerender
                 (s\<lparr>mp4BlobRef := Some mp4Blob, recordedVideoUrl := Some (ObjectURL mp4Blob),
                    recordingState := Preview, conversion := None\<rparr>)
           | Inl error \<Rightarrow>
               rerender
                 (s\<lparr>mp4BlobRef := Some webmBlob, recordedVideoUrl := Some (ObjectURL webmBlob),
                    recordingState := Preview, conversion := None\<rparr>)))"

definition onstop :: "component \<Rightarrow> component" where
  "onstop s = onstopSettle (onstopBegin s)"

text \<open>\<^verbatim>\<open>resetCamera\<close>, and the render that follows.\<close>

definition resetCamera :: "component \<Rightarrow> component" where
  "resetCamera s =
     rerender
       (s\<lparr>effects := effects s @ (case recordedVideoUrl s of None \<Rightarrow> [] | Some u \<Rightarrow> [Revoked u]),
          recordedVideoUrl := None, recordingState := Idle\<rparr>)"

definition downloadVideo :: "component \<Rightarrow> component" where
  "downloadVideo s =
     (case recordedVideoUrl s of
        None \<Rightarrow> s
      | Some u \<Rightarrow>
          (case mp4BlobRef s of
             None \<Rightarrow> s
           | Some b \<Rightarrow> s\<lparr>effects := effects s @ [Downloaded u]\<rparr>))"

text \<open>
  \<^verbatim>\<open>shareVideo\<close>. In \<^verbatim>\<open>navigator.share && navigator.canShare({ files: [file] })\<close> the call
  of \<^verbatim>\<open>canShare\<close> is made whenever \<^verbatim>\<open>navigator.share\<close> is defined, and calling what is not
  defined throws a \<^verbatim>\<open>TypeError\<close>. A share that is cancelled or fails is caught and logged.
\<close>

definition shareVideo :: "navigator \<Rightarrow> component \<Rightarrow> jsError + component" where
  "shareVideo nav s =
     (case mp4BlobRef s of
        None \<Rightarrow> Inr s
      | Some b \<Rightarrow>
          let theFile = \<lparr>fileBlob = b, fileType = ''video/mp4''\<rparr>
          in if hasShare nav
             then (case canShare nav of
                     None \<Rightarrow> Inl TypeError
                   | Some accepts \<Rightarrow>
                       if accepts theFile then Inr (s\<lparr>effects := effects s @ [Shared theFile]\<rparr>)
                       else Inr (downloadVideo s))
             else Inr (downloadVideo s))"

text \<open>\<^verbatim>\<open>track.stop()\<close> on every track of \<^verbatim>\<open>streamRef.current\<close>.\<close>

definition stopTracks :: "component \<Rightarrow> component" where
  "stopTracks s =
     (case streamRef s of
        None \<Rightarrow> s
      | Some stream \<Rightarrow> s\<lparr>endedTracks := endedTracks s @ stream\<rparr>)"

text \<open>
  \<^verbatim>\<open>switchCamera\<close> stops the tracks, cancels the animation frame and flips the facing
  mode. The render that follows gives \<^verbatim>\<open>startCamera\<close> a new identity, so the effect runs
  its cleanup (which cancels the frame and stops the same tracks once more) and calls
  \<^verbatim>\<open>startCamera\<close> for the new facing mode. \<^verbatim>\<open>streamRef\<close> and \<^verbatim>\<open>cameraReady\<close> stay as they are
  until the new stream arrives.
\<close>

definition switchCamera :: "component \<Rightarrow> component" where
  "switchCamera s =
     (let s = stopTracks s;
          s = s\<lparr>renderLoop := None\<rparr>;
          s = s\<lparr>facingMode := (if facingMode s = User then Environment else User)\<rparr>
      in s\<lparr>cameraRequests := cameraRequests s @ [facingMode s]\<rparr>)"

subsection \<open>Events\<close>

text \<open>
  What can happen to the mounted component: a call of \<^verbatim>\<open>getUserMedia\<close> settles (with a
  stream of new, live tracks, or with an error that is logged), the metadata of the
  attached stream arrive, an animation frame runs \<^verbatim>\<open>processFrame\<close> (on what the video
  element, the product image and the browser are at that moment, and with the facing mode
  of the loop), FFmpeg becomes ready, the user clicks a button that is rendered and
  enabled, the recorder delivers data, fails or delivers its \<^verbatim>\<open>stop\<close> event, and the
  conversion settles. \<open>step\<close> is \<open>None\<close> for an event that cannot happen in a state (a
  button that is not on the screen, an event that is not queued).
\<close>

datatype event =
    StreamAcquired facing mediaStream
  | CameraFailed facing
  | LoadedMetadata
  | AnimationFrame renderEnv
  | FFmpegReady ffmpeg
  | ProgressReport nat
  | ClickRecord
  | ClickStop
  | TimerTick nat
  | DataAvailable blob
  | RecorderFailed
  | RecorderStopped
  | ConversionSettled
  | ClickReset
  | ClickDownload
  | ClickShare navigator
  | ClickSwitchCamera

definition recorderActive :: "component \<Rightarrow> bool" where
  "recorderActive s =
     (case mediaRecorderRef s of None \<Rightarrow> False | Some r \<Rightarrow> recState r \<noteq> RecInactive)"

fun step :: "event \<Rightarrow> component \<Rightarrow> component option" where
  "step (StreamAcquired f st) s =
     (if f \<in> set (cameraRequests s) \<and> list_all (\<lambda>t. t \<notin> set (endedTracks s)) st
      then Some (s\<lparr>cameraRequests := remove1 f (cameraRequests s), streamRef := Some st,
                   metadataHandler := Some f\<rparr>)
      else None)"
| "step (CameraFailed f) s =
     (if f \<in> set (cameraRequests s)
      then Some (s\<lparr>cameraRequests := remove1 f (cameraRequests s)\<rparr>)
      else None)"
| "step LoadedMetadata s =
     (case metadataHandler s of
        None \<Rightarrow> None
      | Some f \<Rightarrow> Some (renderSplitView f (s\<lparr>metadataHandler := None, cameraReady := True\<rparr>)))"
| "step (AnimationFrame env) s =
     (case renderLoop s of
        None \<Rightarrow> None
      | Some (canvas, f) \<Rightarrow>
          Some (s\<lparr>canvases := (canvases s)
                    (canvas := processFrame (env\<lparr>facing := f\<rparr>) (canvases s canvas))\<rparr>))"
| "step (FFmpegReady f) s = Some (s\<lparr>ffmpegRef := Some f, ffmpegLoaded := True\<rparr>)"
| "step (ProgressReport n) s = Some (s\<lparr>convertProgress := n\<rparr>)"
| "step ClickRecord s =
     (if \<not> previewShown s \<and> recordingState s = Idle \<and> cameraReady s
      then Some (startRecording s) else None)"
| "step ClickStop s =
     (if \<not> previewShown s \<and> recordingState s \<noteq> Idle
      then Some (stopRecording s) else None)"
| "step (TimerTick n) s = (if recorderActive s then Some (s\<lparr>recordingTime := n\<rparr>) else None)"
| "step (DataAvailable d) s =
     (if recorderActive s \<or> stopQueued s then Some (ondataavailable d s) else None)"
| "step RecorderFailed s =
     (case mediaRecorderRef s of
        None \<Rightarrow> None
      | Some r \<Rightarrow>
          if recState r \<noteq> RecInactive
          then Some (s\<lparr>mediaRecorderRef := Some (r\<lparr>recState := RecInactive\<rparr>), stopQueued := True\<rparr>)
          else None)"
| "step RecorderStopped s =
     (if stopQueued s then Some (onstopBegin (s\<lparr>stopQueued := False\<rparr>)) else None)"
| "step ConversionSettled s =
     (if conversion s \<noteq> None then Some (onstopSettle s) else None)"
| "step ClickReset s = (if previewShown s then Some (resetCamera s) else None)"
| "step ClickDownload s = (if previewShown s then Some (downloadVideo s) else None)"
| "step (ClickShare nav) s =
     (if previewShown s
      then (case shareVideo nav s of Inl e \<Rightarrow> Some s | Inr s' \<Rightarrow> Some s')
      else None)"
| "step ClickSwitchCamera s = (if \<not> previewShown s then Some (switchCamera s) else None)"

fun run :: "event list \<Rightarrow> component \<Rightarrow> component option" where
  "run [] s = Some s"
| "run (e # es) s = (case step e s of None \<Rightarrow> None | Some s' \<Rightarrow> run es s')"

text \<open>
  What links the state of the component to the recorder and to the pending conversion;
  every event keeps it.
\<close>

definition inv :: "component \<Rightarrow> bool" where
  "inv s =
     ((stopQueued s \<longrightarrow> recordingState s = Recording \<and> \<not> recorderActive s) \<and>
      (conversion s \<noteq> None \<longrightarrow> recordingState s = Converting) \<and>
      (recorderActive s \<longrightarrow> recordingState s = Recording))"

subsection \<open>Sample inputs\<close>

text \<open>
  Inputs for the examples below: a rasterizer that paints a flat opaque colour per kind of
  call on the pixels that lie inside the destination rectangle and leaves the others as
  they are, a video element that has data with that rasterizer, a camera stream with one
  video and one audio track, and a recorded chunk.
\<close>

definition sampleRaster :: rasterizer where
  "sampleRaster call x y old =
     (if inClip (Some (deviceRect (transform (under call)) (dstRect call))) x y
      then (case painted call of
              FillColor _ \<Rightarrow> (0, 0, 0, 255)
            | VideoFrame \<Rightarrow> (200, 100, 50, 255)
            | ProductImage \<Rightarrow> (255, 255, 255, 255))
      else old)"

definition sampleEnv :: renderEnv where
  "sampleEnv = \<lparr>video = \<lparr>readyState = 4, videoWidth = 1920, videoHeight = 1080\<rparr>,
     facing = User, productImageRef = None, raster = sampleRaster\<rparr>"

definition sampleStream :: mediaStream where
  "sampleStream = [CameraTrack VideoTrack 0, CameraTrack AudioTrack 1]"

definition sampleChunk :: blob where
  "sampleChunk = \<lparr>blobData = [26, 69, 223, 163], blobType = ''video/webm''\<rparr>"

section \<open>Properties\<close>

subsection \<open>The inversion filter\<close>

lemma length_invertAt [simp]: "length (invertAt d i) = length d"
  by (simp add: invertAt_def)

lemma uint_toUint8Clamp: "0 \<le> n \<Longrightarrow> n \<le> 255 \<Longrightarrow> uint (toUint8Clamp n) = n"
  by (simp add: toUint8Clamp_def uint_word_of_int take_bit_eq_mod)

lemma uint_u8_le: "uint (v :: u8) \<le> 255"
  using uint_bounded [of v] by simp

lemma uint_toUint8Clamp_invert: "uint (toUint8Clamp (255 - uint (v :: u8))) = 255 - uint v"
  by (rule uint_toUint8Clamp) (use uint_u8_le [of v] in simp_all)

lemma toUint8Clamp_invert_invert:
  "toUint8Clamp (255 - uint (toUint8Clamp (255 - uint (v :: u8)))) = v"
proof -
  let ?w = "toUint8Clamp (255 - uint v)"
  have "uint (toUint8Clamp (255 - uint ?w)) = 255 - uint ?w"
    by (rule uint_toUint8Clamp_invert)
  also have "\<dots> = 255 - (255 - uint v)"
    by (simp only: uint_toUint8Clamp_invert)
  also have "\<dots> = uint v" by arith
  finally show ?thesis by (simp only: word_uint_eq_iff)
qed

lemma nth_invertAt:
  "j < length d \<Longrightarrow>
   invertAt d i ! j = (if j = i then toUint8Clamp (255 - uint (d ! j)) else d ! j)"
  by (simp add: invertAt_def nth_list_update)

lemma length_invertLoop [simp]: "length (invertLoop i d) = length d"
proof (induction i d rule: invertLoop.induct)
  case (1 i d)
  show ?case
  proof (cases "i < length d")
    case True
    with "1" show ?thesis by (subst invertLoop.simps) simp
  next
    case False
    then show ?thesis by (subst invertLoop.simps) simp
  qed
qed

lemma nth_invertLoop:
  "i mod 4 = 0 \<Longrightarrow> j < length d \<Longrightarrow>
   invertLoop i d ! j =
     (if i \<le> j \<and> j mod 4 \<noteq> 3 then toUint8Clamp (255 - uint (d ! j)) else d ! j)"
proof (induction i d rule: invertLoop.induct)
  case (1 i d)
  show ?case
  proof (cases "i < length d")
    case False
    with "1.prems" show ?thesis by (subst invertLoop.simps) simp
  next
    case True
    let ?d = "invertAt (invertAt (invertAt d i) (i + 1)) (i + 2)"
    have step: "invertLoop i d = invertLoop (i + 4) ?d"
      using True by (subst invertLoop.simps) simp
    have m: "(i + 4) mod 4 = 0" using "1.prems"(1) by presburger
    have j: "j < length ?d" using "1.prems"(2) by simp
    have ih: "invertLoop (i + 4) ?d ! j =
        (if i + 4 \<le> j \<and> j mod 4 \<noteq> 3 then toUint8Clamp (255 - uint (?d ! j)) else ?d ! j)"
      using "1.IH" [OF True m j] .
    have dj: "?d ! j =
        (if j = i \<or> j = i + 1 \<or> j = i + 2 then toUint8Clamp (255 - uint (d ! j)) else d ! j)"
      using "1.prems"(2) by (simp add: nth_invertAt)
    have cases: "j < i \<or> j = i \<or> j = i + 1 \<or> j = i + 2 \<or> j = i + 3 \<or> i + 4 \<le> j"
      by arith
    have m3: "j = i + 3 \<Longrightarrow> j mod 4 = 3" using "1.prems"(1) by presburger
    have m0: "j = i \<Longrightarrow> j mod 4 \<noteq> 3" using "1.prems"(1) by presburger
    have m1: "j = i + 1 \<Longrightarrow> j mod 4 \<noteq> 3" using "1.prems"(1) by presburger
    have m2: "j = i + 2 \<Longrightarrow> j mod 4 \<noteq> 3" using "1.prems"(1) by presburger
    show ?thesis
      unfolding step ih dj using cases m0 m1 m2 m3 by auto
  qed
qed

lemma nth_invertFilter:
  "j < length d \<Longrightarrow>
   invertFilter d ! j = (if j mod 4 \<noteq> 3 then toUint8Clamp (255 - uint (d ! j)) else d ! j)"
  by (simp add: invertFilter_def nth_invertLoop)

lemma nth_invertFilter_rgb:
  "j < length d \<Longrightarrow> j mod 4 \<noteq> 3 \<Longrightarrow>
   invertFilter d ! j = toUint8Clamp (255 - uint (d ! j))"
  by (simp add: nth_invertFilter)

lemma nth_invertFilter_alpha:
  "j < length d \<Longrightarrow> j mod 4 = 3 \<Longrightarrow> invertFilter d ! j = d ! j"
  by (simp add: nth_invertFilter)

lemma length_invertFilter [simp]: "length (invertFilter d) = length d"
  by (simp add: invertFilter_def)

text \<open>
  Claim C2. The inversion filter walks the RGBA array four bytes at a time and replaces
  each red, green and blue byte \<open>v\<close> (an integer in 0..255) by \<open>255 - v\<close>: every byte of the
  array whose index is not that of an alpha channel ends up holding 255 minus its old
  value, and the array keeps its length.
\<close>

theorem invertFilter_rgb:
  "j < length d \<Longrightarrow> j mod 4 \<noteq> 3 \<Longrightarrow>
   uint (invertFilter d ! j) = 255 - uint (d ! j) \<and>
   0 \<le> uint (invertFilter d ! j) \<and> uint (invertFilter d ! j) \<le> 255 \<and>
   length (invertFilter d) = length d"
proof -
  assume j: "j < length d" and c: "j mod 4 \<noteq> 3"
  have e: "invertFilter d ! j = toUint8Clamp (255 - uint (d ! j))"
    using j c by (rule nth_invertFilter_rgb)
  have u: "uint (invertFilter d ! j) = 255 - uint (d ! j)"
    unfolding e by (rule uint_toUint8Clamp_invert)
  show ?thesis
    using u uint_u8_le [of "d ! j"] by simp
qed

theorem invertFilter_rgb_witness:
  "(1::nat) < length [10, 20, 30, 40 :: u8] \<and> (1::nat) mod 4 \<noteq> 3 \<and>
   uint (invertFilter [10, 20, 30, 40] ! 1) = 255 - uint ([10, 20, 30, 40 :: u8] ! 1) \<and>
   invertFilter [10, 20, 30, 40, 1, 2, 3, 4] = [245, 235, 225, 40, 254, 253, 252, 4]"
proof -
  have e: "invertFilter [10, 20, 30, 40, 1, 2, 3, 4 :: u8] = [245, 235, 225, 40, 254, 253, 252, 4]"
    by code_simp
  show ?thesis
    using invertFilter_rgb [of 1 "[10, 20, 30, 40]"] e by simp
qed

text \<open>
  Claim C9. The filter is an involution that touches colour channels only: applying it
  twice gives back the array, and one application leaves every alpha byte (every index
  congruent to 3 modulo 4) as it was.
\<close>

theorem invertFilter_involution_alpha:
  "invertFilter (invertFilter d) = d \<and>
   (\<forall>j. j < length d \<and> j mod 4 = 3 \<longrightarrow> invertFilter d ! j = d ! j)"
proof
  show "invertFilter (invertFilter d) = d"
  proof (rule nth_equalityI)
    show "length (invertFilter (invertFilter d)) = length d" by simp
  next
    fix j assume "j < length (invertFilter (invertFilter d))"
    then have j: "j < length d" by simp
    then have j': "j < length (invertFilter d)" by simp
    show "invertFilter (invertFilter d) ! j = d ! j"
    proof (cases "j mod 4 = 3")
      case True
      show ?thesis
        by (simp only: nth_invertFilter_alpha [OF j' True] nth_invertFilter_alpha [OF j True])
    next
      case False
      show ?thesis
        by (simp only: nth_invertFilter_rgb [OF j' False] nth_invertFilter_rgb [OF j False]
            toUint8Clamp_invert_invert)
    qed
  qed
  show "\<forall>j. j < length d \<and> j mod 4 = 3 \<longrightarrow> invertFilter d ! j = d ! j"
    by (simp add: nth_invertFilter)
qed

theorem invertFilter_involution_alpha_witness:
  "invertFilter (invertFilter [10, 20, 30, 40, 1, 2, 3 :: u8]) = [10, 20, 30, 40, 1, 2, 3] \<and>
   (3::nat) < length [10, 20, 30, 40, 1, 2, 3 :: u8] \<and> (3::nat) mod 4 = 3 \<and>
   invertFilter [10, 20, 30, 40, 1, 2, 3 :: u8] ! 3 = [10, 20, 30, 40, 1, 2, 3 :: u8] ! 3"
  using invertFilter_involution_alpha [of "[10, 20, 30, 40, 1, 2, 3]"] by simp


subsection \<open>Fields that the canvas operations keep\<close>

lemma putImageData_fields [simp]:
  "state (putImageData img dx dy c) = state c"
  "saved (putImageData img dx dy c) = saved c"
  "drawn (putImageData img dx dy c) = drawn c"
  "cwidth (putImageData img dx dy c) = cwidth c"
  "cheight (putImageData img dx dy c) = cheight c"
  "length (bitmap (putImageData img dx dy c)) = length (bitmap c)"
  by (simp_all add: putImageData_def)

lemma copyTopToBottom_fields [simp]:
  "state (copyTopToBottom w hh c) = state c"
  "saved (copyTopToBottom w hh c) = saved c"
  "drawn (copyTopToBottom w hh c) = drawn c"
  "cwidth (copyTopToBottom w hh c) = cwidth c"
  "cheight (copyTopToBottom w hh c) = cheight c"
  "length (bitmap (copyTopToBottom w hh c)) = length (bitmap c)"
  by (simp_all add: copyTopToBottom_def Let_def)

lemma invertTop_fields [simp]:
  "state (invertTop w hh c) = state c"
  "saved (invertTop w hh c) = saved c"
  "drawn (invertTop w hh c) = drawn c"
  "cwidth (invertTop w hh c) = cwidth c"
  "cheight (invertTop w hh c) = cheight c"
  "length (bitmap (invertTop w hh c)) = length (bitmap c)"
  by (simp_all add: invertTop_def Let_def)

lemma paintCall_fields [simp]:
  "state (paintCall rz p src dst c) = state c"
  "saved (paintCall rz p src dst c) = saved c"
  "drawn (paintCall rz p src dst c) =
     drawn c @ [\<lparr>painted = p, srcRect = src, dstRect = dst, under = state c\<rparr>]"
  "cwidth (paintCall rz p src dst c) = cwidth c"
  "cheight (paintCall rz p src dst c) = cheight c"
  "length (bitmap (paintCall rz p src dst c)) = length (bitmap c)"
  by (simp_all add: paintCall_def rasterize_def Let_def)

lemma drawImage_fields [simp]:
  "state (drawImage rz p src dst c) = state c"
  "saved (drawImage rz p src dst c) = saved c"
  "cwidth (drawImage rz p src dst c) = cwidth c"
  "cheight (drawImage rz p src dst c) = cheight c"
  "length (bitmap (drawImage rz p src dst c)) = length (bitmap c)"
  by (simp_all add: drawImage_def split: option.splits)

lemma drawImage_drawn:
  "drawn (drawImage rz p src dst c) =
     drawn c @ (case dst of None \<Rightarrow> []
                | Some r \<Rightarrow> [\<lparr>painted = p, srcRect = src, dstRect = r, under = state c\<rparr>])"
  by (simp add: drawImage_def split: option.splits)

lemma halfHeight_eq: "halfHeight = 960"
  by (simp add: halfHeight_def STORY_HEIGHT_def)

lemma targetAspect_eq: "targetAspect = 9 / 8"
  by (simp add: targetAspect_def STORY_WIDTH_def halfHeight_eq)

lemma cameraLayer_fields:
  "state (cameraLayer env c0) = defaultState"
  "saved (cameraLayer env c0) = []"
  "cwidth (cameraLayer env c0) = 1080"
  "cheight (cameraLayer env c0) = 1920"
  "length (bitmap (cameraLayer env c0)) = 4 * 1080 * 1920"
  by (simp_all add: cameraLayer_def Let_def restore_def save_def clipRect_def fillRect_def
      setWidth_def setHeight_def translate_def scale_def defaultState_def STORY_WIDTH_def
      STORY_HEIGHT_def)

lemma cameraLayer_part000_fields:
  "state (cameraLayer_part000 env c0) = defaultState"
  "saved (cameraLayer_part000 env c0) = []"
  "cwidth (cameraLayer_part000 env c0) = videoWidth (video env)"
  "cheight (cameraLayer_part000 env c0) = videoHeight (video env)"
  "length (bitmap (cameraLayer_part000 env c0)) =
     4 * videoWidth (video env) * videoHeight (video env)"
  by (simp_all add: cameraLayer_part000_def Let_def restore_def save_def setWidth_def
      setHeight_def translate_def scale_def)

subsection \<open>The rectangle the video is drawn into\<close>

lemma fitVideo_wide:
  assumes "0 < vw" "0 < vh" "real vw / real vh > 9 / 8"
  shows "fitVideo vw vh = Some \<lparr>drawX = (1080 - 960 * (real vw / real vh)) / 2, drawY = 0,
           drawWidth = 960 * (real vw / real vh), drawHeight = 960\<rparr>"
  using assms by (simp add: fitVideo_def targetAspect_eq halfHeight_eq STORY_WIDTH_def Let_def)

lemma fitVideo_tall:
  assumes "0 < vw" "0 < vh" "\<not> real vw / real vh > 9 / 8"
  shows "fitVideo vw vh = Some \<lparr>drawX = 0, drawY = (960 - 1080 / (real vw / real vh)) / 2,
           drawWidth = 1080, drawHeight = 1080 / (real vw / real vh)\<rparr>"
  using assms by (simp add: fitVideo_def targetAspect_eq halfHeight_eq STORY_WIDTH_def Let_def)

lemma tall_height:
  assumes "0 < (a::real)" "a \<le> 9 / 8"
  shows "960 \<le> 1080 / a"
proof -
  have "960 * a \<le> 1080" using assms by simp
  then show ?thesis using assms(1) by (simp add: pos_le_divide_eq)
qed

lemma fitVideo_Some: "0 < vw \<Longrightarrow> 0 < vh \<Longrightarrow> \<exists>r. fitVideo vw vh = Some r"
  by (simp add: fitVideo_def Let_def)

lemma deviceRect_mirror_covers:
  assumes "drawX r \<le> 0" "1080 \<le> drawX r + drawWidth r"
    and "drawY r \<le> 0" "960 \<le> drawY r + drawHeight r"
  shows "drawX (deviceRect \<lparr>scaleX = - 1, scaleY = 1, shiftX = 1080, shiftY = 0\<rparr> r) \<le> 0 \<and>
         1080 \<le> drawX (deviceRect \<lparr>scaleX = - 1, scaleY = 1, shiftX = 1080, shiftY = 0\<rparr> r) +
                  drawWidth (deviceRect \<lparr>scaleX = - 1, scaleY = 1, shiftX = 1080, shiftY = 0\<rparr> r) \<and>
         drawY (deviceRect \<lparr>scaleX = - 1, scaleY = 1, shiftX = 1080, shiftY = 0\<rparr> r) \<le> 0 \<and>
         960 \<le> drawY (deviceRect \<lparr>scaleX = - 1, scaleY = 1, shiftX = 1080, shiftY = 0\<rparr> r) +
                 drawHeight (deviceRect \<lparr>scaleX = - 1, scaleY = 1, shiftX = 1080, shiftY = 0\<rparr> r)"
  using assms by (simp add: deviceRect_def Let_def min_def abs_if)

lemma fitVideo_rect:
  assumes "0 < vw" and "0 < vh"
  shows "case fitVideo vw vh of
           None \<Rightarrow> False
         | Some r \<Rightarrow>
             1080 \<le> drawWidth r \<and> 960 \<le> drawHeight r \<and>
             (if real vw / real vh > 1080 / 960
              then drawX r = (1080 - drawWidth r) / 2 \<and> drawY r = 0 \<and> drawHeight r = 960
              else drawY r = (960 - drawHeight r) / 2 \<and> drawX r = 0 \<and> drawWidth r = 1080) \<and>
             drawX r \<le> 0 \<and> 1080 \<le> drawX r + drawWidth r \<and>
             drawY r \<le> 0 \<and> 960 \<le> drawY r + drawHeight r"
proof -
  define a where "a = real vw / real vh"
  have pos: "0 < a" using assms by (simp add: a_def)
  show ?thesis
  proof (cases "a > 9 / 8")
    case True
    have f: "fitVideo vw vh = Some \<lparr>drawX = (1080 - 960 * a) / 2, drawY = 0,
           drawWidth = 960 * a, drawHeight = 960\<rparr>"
      unfolding a_def using assms True by (intro fitVideo_wide) (simp_all add: a_def)
    have w: "1080 \<le> 960 * a" using True by simp
    have x: "(1080 - 960 * a) / 2 \<le> 0" using w by simp
    have c: "1080 \<le> (1080 - 960 * a) / 2 + 960 * a" using w by (simp add: field_simps)
    have t: "1080 / 960 < a" using True by simp
    show ?thesis unfolding f a_def [symmetric] using t w x c by (simp del: divide_le_0_iff)
  next
    case False
    have f: "fitVideo vw vh = Some \<lparr>drawX = 0, drawY = (960 - 1080 / a) / 2,
           drawWidth = 1080, drawHeight = 1080 / a\<rparr>"
      unfolding a_def using assms False by (intro fitVideo_tall) (simp_all add: a_def)
    have h: "960 \<le> 1080 / a"
      using pos False by (intro tall_height) simp_all
    have y: "(960 - 1080 / a) / 2 \<le> 0" using h by simp
    have c: "960 \<le> (960 - 1080 / a) / 2 + 1080 / a" using h by (simp add: field_simps)
    have t: "\<not> 1080 / 960 < a" using False by simp
    show ?thesis unfolding f a_def [symmetric] using t h y c by (simp del: divide_le_0_iff)
  qed
qed

text \<open>
  Claim C10. For a camera frame of positive width and height the rectangle computed for
  the top half of the 1080 by 1920 canvas covers that half: it is at least 1080 wide and
  960 high, it is centred on the axis that overflows (\<open>drawX = (1080 - drawWidth) / 2\<close> when
  the video is wider than 1080 by 960, \<open>drawY = (960 - drawHeight) / 2\<close> otherwise) and
  flush on the other, so that it reaches from 0 to at least 1080 and from 0 to at least
  960, and so does its mirror image, which is what the front camera draws.
\<close>

theorem fitVideo_covers:
  assumes "0 < vw" and "0 < vh"
  shows "case fitVideo vw vh of
           None \<Rightarrow> False
         | Some r \<Rightarrow>
             1080 \<le> drawWidth r \<and> 960 \<le> drawHeight r \<and>
             (if real vw / real vh > 1080 / 960
              then drawX r = (1080 - drawWidth r) / 2 \<and> drawY r = 0 \<and> drawHeight r = 960
              else drawY r = (960 - drawHeight r) / 2 \<and> drawX r = 0 \<and> drawWidth r = 1080) \<and>
             drawX r \<le> 0 \<and> 1080 \<le> drawX r + drawWidth r \<and>
             drawY r \<le> 0 \<and> 960 \<le> drawY r + drawHeight r \<and>
             drawX (deviceRect \<lparr>scaleX = - 1, scaleY = 1, shiftX = 1080, shiftY = 0\<rparr> r) \<le> 0 \<and>
             1080 \<le> drawX (deviceRect \<lparr>scaleX = - 1, scaleY = 1, shiftX = 1080, shiftY = 0\<rparr> r) +
                      drawWidth (deviceRect \<lparr>scaleX = - 1, scaleY = 1, shiftX = 1080, shiftY = 0\<rparr> r) \<and>
             drawY (deviceRect \<lparr>scaleX = - 1, scaleY = 1, shiftX = 1080, shiftY = 0\<rparr> r) \<le> 0 \<and>
             960 \<le> drawY (deviceRect \<lparr>scaleX = - 1, scaleY = 1, shiftX = 1080, shiftY = 0\<rparr> r) +
                     drawHeight (deviceRect \<lparr>scaleX = - 1, scaleY = 1, shiftX = 1080, shiftY = 0\<rparr> r)"
proof -
  obtain r where r: "fitVideo vw vh = Some r"
    using fitVideo_Some [OF assms] by blast
  have base: "1080 \<le> drawWidth r \<and> 960 \<le> drawHeight r \<and>
             (if real vw / real vh > 1080 / 960
              then drawX r = (1080 - drawWidth r) / 2 \<and> drawY r = 0 \<and> drawHeight r = 960
              else drawY r = (960 - drawHeight r) / 2 \<and> drawX r = 0 \<and> drawWidth r = 1080) \<and>
             drawX r \<le> 0 \<and> 1080 \<le> drawX r + drawWidth r \<and>
             drawY r \<le> 0 \<and> 960 \<le> drawY r + drawHeight r"
    using fitVideo_rect [OF assms] unfolding r by simp
  then have c: "drawX r \<le> 0" "1080 \<le> drawX r + drawWidth r"
    "drawY r \<le> 0" "960 \<le> drawY r + drawHeight r"
    by blast+
  show ?thesis
    unfolding r using base deviceRect_mirror_covers [OF c] by simp
qed

theorem fitVideo_covers_witness:
  "(0::nat) < 1920 \<and> (0::nat) < 1080 \<and>
   fitVideo 1920 1080 =
     Some \<lparr>drawX = - 940 / 3, drawY = 0, drawWidth = 5120 / 3, drawHeight = 960\<rparr> \<and>
   fitVideo 1080 1920 =
     Some \<lparr>drawX = 0, drawY = - 480, drawWidth = 1080, drawHeight = 1920\<rparr>"
  using fitVideo_covers [of 1920 1080] fitVideo_covers [of 1080 1920]
  by (simp add: fitVideo_def targetAspect_eq halfHeight_eq STORY_WIDTH_def Let_def)

subsection \<open>Reading and writing pixels\<close>

lemma idx_bound:
  assumes "x < w" "y < h" "k < 4"
  shows "4 * (y * w + x) + k < 4 * w * (h::nat)"
proof -
  have "Suc y * w \<le> h * w" using assms(2) by (intro mult_le_mono1) simp
  then have "y * w + x < w * h" using assms(1) by (simp add: mult.commute)
  then show ?thesis using assms(3) by simp
qed

lemma idx_mod: "k < 4 \<Longrightarrow> (4 * q + k) mod 4 = (k::nat)"
  by simp

lemma channel_pixelAt: "k < 4 \<Longrightarrow> channel (pixelAt d q) k = d ! (4 * q + k)"
proof -
  assume "k < 4"
  then have "k = 0 \<or> k = 1 \<or> k = 2 \<or> k = 3" by arith
  then show ?thesis by (auto simp: channel_def pixelAt_def)
qed

lemma channel_pixelOf: "k < 4 \<Longrightarrow> channel (pixelOf c x y) k = byteAt c x y k"
  by (simp add: pixelOf_def byteAt_def channel_pixelAt)

lemma pixel_eqI:
  assumes "\<And>k. k < 4 \<Longrightarrow> channel p k = channel p' k"
  shows "p = p'"
proof -
  obtain r g b a where p: "p = (r, g, b, a)" by (cases p)
  obtain r' g' b' a' where p': "p' = (r', g', b', a')" by (cases p')
  have "channel p 0 = channel p' 0" "channel p 1 = channel p' 1"
    "channel p 2 = channel p' 2" "channel p 3 = channel p' 3"
    by (simp_all add: assms)
  then show ?thesis by (simp add: p p' channel_def)
qed

lemma alpha_channel: "alpha p = channel p 3"
  by (cases p) (simp add: alpha_def channel_def)

lemma stored_opaque: "alpha p = 255 \<Longrightarrow> stored p = p"
  by (cases p) (simp add: alpha_def stored_def)

lemma stored_transparent: "alpha p = 0 \<Longrightarrow> stored p = (0, 0, 0, 0)"
  by (cases p) (simp add: alpha_def stored_def)

lemma alpha_stored [simp]: "alpha (stored p) = alpha p"
  by (cases p) (simp add: alpha_def stored_def)

lemma alpha_invertPixel [simp]: "alpha (invertPixel p) = alpha p"
  by (cases p) (simp add: alpha_def invertPixel_def)

lemma channel_invertPixel:
  "k < 3 \<Longrightarrow> channel (invertPixel p) k = toUint8Clamp (255 - uint (channel p k))"
  "channel (invertPixel p) 3 = channel p 3"
proof -
  obtain r g b a where p: "p = (r, g, b, a)" by (cases p)
  show "channel (invertPixel p) 3 = channel p 3"
    by (simp add: p invertPixel_def channel_def)
  assume "k < 3"
  then have "k = 0 \<or> k = 1 \<or> k = 2" by arith
  then show "channel (invertPixel p) k = toUint8Clamp (255 - uint (channel p k))"
    by (auto simp: p invertPixel_def channel_def)
qed

lemma pixelAt_invertFilter:
  assumes "4 * q + 3 < length d"
  shows "pixelAt (invertFilter d) q = invertPixel (pixelAt d q)"
proof (rule pixel_eqI)
  fix k :: nat assume k: "k < 4"
  have b: "4 * q + k < length d" using assms k by simp
  have m: "(4 * q + k) mod 4 = k" using k by (rule idx_mod)
  show "channel (pixelAt (invertFilter d) q) k = channel (invertPixel (pixelAt d q)) k"
  proof (cases "k = 3")
    case True
    have "invertFilter d ! (4 * q + k) = d ! (4 * q + k)"
      using b m True by (intro nth_invertFilter_alpha) simp_all
    then show ?thesis
      using True by (simp add: channel_pixelAt channel_invertPixel(2))
  next
    case False
    then have k3: "k < 3" using k by simp
    have "invertFilter d ! (4 * q + k) = toUint8Clamp (255 - uint (d ! (4 * q + k)))"
      using b m False by (intro nth_invertFilter_rgb) simp_all
    then show ?thesis
      using k by (simp only: channel_pixelAt [OF k] channel_invertPixel(1) [OF k3])
  qed
qed

lemma idata_getImageData_nth:
  "i < 4 * sw * sh \<Longrightarrow>
   idata (getImageData c sx sy sw sh) ! i =
     (if sx + (i div 4) mod sw < cwidth c \<and> sy + (i div 4) div sw < cheight c
      then bitmap c ! (4 * ((sy + (i div 4) div sw) * cwidth c + (sx + (i div 4) mod sw)) + i mod 4)
      else 0)"
  by (simp add: getImageData_def Let_def del: upt_Suc)

lemma bitmap_putImageData_nth:
  "i < length (bitmap c) \<Longrightarrow>
   bitmap (putImageData img dx dy c) ! i =
     (if dx \<le> (i div 4) mod cwidth c \<and> (i div 4) mod cwidth c < dx + iwidth img \<and>
         dy \<le> (i div 4) div cwidth c \<and> (i div 4) div cwidth c < dy + iheight img
      then channel (stored (pixelAt (idata img)
                      (((i div 4) div cwidth c - dy) * iwidth img +
                       ((i div 4) mod cwidth c - dx)))) (i mod 4)
      else bitmap c ! i)"
  by (simp add: putImageData_def Let_def del: upt_Suc)

lemma bitmap_rasterize_nth:
  "i < length (bitmap c) \<Longrightarrow>
   rasterize rz call c ! i =
     (if inClip (clip (state c)) ((i div 4) mod cwidth c) ((i div 4) div cwidth c)
      then channel (paintPixel rz call ((i div 4) mod cwidth c) ((i div 4) div cwidth c)
                      (pixelAt (bitmap c) (i div 4))) (i mod 4)
      else bitmap c ! i)"
  by (simp add: rasterize_def Let_def del: upt_Suc)

lemma nth_getImageData:
  assumes "x < sw" "y < sh" "k < 4"
  shows "idata (getImageData c sx sy sw sh) ! (4 * (y * sw + x) + k) =
           (if sx + x < cwidth c \<and> sy + y < cheight c then byteAt c (sx + x) (sy + y) k else 0)"
proof -
  define q where "q = y * sw + x"
  define i where "i = 4 * q + k"
  have b: "i < 4 * sw * sh" unfolding i_def q_def using assms by (rule idx_bound)
  have d: "i div 4 = q" and m: "i mod 4 = k" unfolding i_def using assms(3) by simp_all
  have qm: "q mod sw = x" and qd: "q div sw = y" unfolding q_def using assms(1) by simp_all
  have "idata (getImageData c sx sy sw sh) ! i =
           (if sx + x < cwidth c \<and> sy + y < cheight c then byteAt c (sx + x) (sy + y) k else 0)"
    unfolding idata_getImageData_nth [OF b] d m qm qd byteAt_def ..
  then show ?thesis unfolding i_def q_def .
qed

lemma length_getImageData [simp]: "length (idata (getImageData c sx sy sw sh)) = 4 * sw * sh"
  by (simp add: getImageData_def)

lemma getImageData_dims [simp]:
  "iwidth (getImageData c sx sy sw sh) = sw" "iheight (getImageData c sx sy sw sh) = sh"
  by (simp_all add: getImageData_def)

lemma pixelAt_getImageData:
  assumes "x < sw" "y < sh" "sx + x < cwidth c" "sy + y < cheight c"
  shows "pixelAt (idata (getImageData c sx sy sw sh)) (y * sw + x) = pixelOf c (sx + x) (sy + y)"
proof (rule pixel_eqI)
  fix k :: nat assume k: "k < 4"
  show "channel (pixelAt (idata (getImageData c sx sy sw sh)) (y * sw + x)) k =
        channel (pixelOf c (sx + x) (sy + y)) k"
    unfolding channel_pixelAt [OF k] channel_pixelOf [OF k]
      nth_getImageData [OF assms(1,2) k]
    using assms(3,4) by simp
qed

lemma byteAt_putImageData:
  assumes "length (bitmap c) = 4 * cwidth c * cheight c" "x < cwidth c" "y < cheight c" "k < 4"
  shows "byteAt (putImageData img dx dy c) x y k =
           (if dx \<le> x \<and> x < dx + iwidth img \<and> dy \<le> y \<and> y < dy + iheight img
            then channel (stored (pixelAt (idata img) ((y - dy) * iwidth img + (x - dx)))) k
            else byteAt c x y k)"
proof -
  define q where "q = y * cwidth c + x"
  define i where "i = 4 * q + k"
  have b: "i < length (bitmap c)"
    unfolding assms(1) i_def q_def using assms(2-4) by (rule idx_bound)
  have d: "i div 4 = q" and m: "i mod 4 = k" unfolding i_def using assms(4) by simp_all
  have qm: "q mod cwidth c = x" and qd: "q div cwidth c = y"
    unfolding q_def using assms(2) by simp_all
  have w: "cwidth (putImageData img dx dy c) = cwidth c" by simp
  have "bitmap (putImageData img dx dy c) ! i =
           (if dx \<le> x \<and> x < dx + iwidth img \<and> dy \<le> y \<and> y < dy + iheight img
            then channel (stored (pixelAt (idata img) ((y - dy) * iwidth img + (x - dx)))) k
            else bitmap c ! i)"
    unfolding bitmap_putImageData_nth [OF b] d m qm qd ..
  then show ?thesis unfolding byteAt_def w i_def q_def .
qed

lemma byteAt_paintCall:
  assumes "length (bitmap c) = 4 * cwidth c * cheight c" "x < cwidth c" "y < cheight c" "k < 4"
  shows "byteAt (paintCall rz p src dst c) x y k =
           (if inClip (clip (state c)) x y
            then channel (paintPixel rz \<lparr>painted = p, srcRect = src, dstRect = dst,
                                         under = state c\<rparr> x y (pixelOf c x y)) k
            else byteAt c x y k)"
proof -
  define q where "q = y * cwidth c + x"
  define i where "i = 4 * q + k"
  define call where "call = \<lparr>painted = p, srcRect = src, dstRect = dst, under = state c\<rparr>"
  have b: "i < length (bitmap c)"
    unfolding assms(1) i_def q_def using assms(2-4) by (rule idx_bound)
  have d: "i div 4 = q" and m: "i mod 4 = k" unfolding i_def using assms(4) by simp_all
  have qm: "q mod cwidth c = x" and qd: "q div cwidth c = y"
    unfolding q_def using assms(2) by simp_all
  have w: "cwidth (paintCall rz p src dst c) = cwidth c" by simp
  have bm: "bitmap (paintCall rz p src dst c) = rasterize rz call c"
    by (simp add: paintCall_def Let_def call_def)
  have "rasterize rz call c ! i =
           (if inClip (clip (state c)) x y
            then channel (paintPixel rz call x y (pixelAt (bitmap c) q)) k
            else bitmap c ! i)"
    unfolding bitmap_rasterize_nth [OF b] d m qm qd ..
  then show ?thesis unfolding byteAt_def w bm pixelOf_def i_def q_def call_def .
qed

lemma pixelOf_paintCall:
  assumes "length (bitmap c) = 4 * cwidth c * cheight c" "x < cwidth c" "y < cheight c"
  shows "pixelOf (paintCall rz p src dst c) x y =
           (if inClip (clip (state c)) x y
            then paintPixel rz \<lparr>painted = p, srcRect = src, dstRect = dst,
                                 under = state c\<rparr> x y (pixelOf c x y)
            else pixelOf c x y)"
proof (rule pixel_eqI)
  fix k :: nat assume k: "k < 4"
  show "channel (pixelOf (paintCall rz p src dst c) x y) k =
        channel (if inClip (clip (state c)) x y
            then paintPixel rz \<lparr>painted = p, srcRect = src, dstRect = dst,
                                 under = state c\<rparr> x y (pixelOf c x y)
            else pixelOf c x y) k"
    unfolding channel_pixelOf [OF k] byteAt_paintCall [OF assms k]
    by (simp add: channel_pixelOf [OF k])
qed

lemma pixelOf_putImageData:
  assumes "length (bitmap c) = 4 * cwidth c * cheight c" "x < cwidth c" "y < cheight c"
  shows "pixelOf (putImageData img dx dy c) x y =
           (if dx \<le> x \<and> x < dx + iwidth img \<and> dy \<le> y \<and> y < dy + iheight img
            then stored (pixelAt (idata img) ((y - dy) * iwidth img + (x - dx)))
            else pixelOf c x y)"
proof (rule pixel_eqI)
  fix k :: nat assume k: "k < 4"
  show "channel (pixelOf (putImageData img dx dy c) x y) k =
        channel (if dx \<le> x \<and> x < dx + iwidth img \<and> dy \<le> y \<and> y < dy + iheight img
            then stored (pixelAt (idata img) ((y - dy) * iwidth img + (x - dx)))
            else pixelOf c x y) k"
    unfolding channel_pixelOf [OF k] byteAt_putImageData [OF assms k]
    by (simp add: channel_pixelOf [OF k])
qed

lemma pixelOf_copyTopToBottom:
  assumes "length (bitmap c) = 4 * cwidth c * cheight c" "cwidth c = w" "hh + hh \<le> cheight c"
    and "x < w" "y < hh"
  shows "pixelOf (copyTopToBottom w hh c) x (y + hh) = stored (pixelOf c x y)"
    and "pixelOf (copyTopToBottom w hh c) x y = pixelOf c x y"
proof -
  have y1: "y + hh < cheight c" and y2: "y < cheight c" using assms(3,5) by simp_all
  have x: "x < cwidth c" using assms(2,4) by simp
  have g: "pixelAt (idata (getImageData c 0 0 w hh)) (y * w + x) = pixelOf c x y"
    using pixelAt_getImageData [OF assms(4,5), of 0 c 0] x y2 by simp
  show "pixelOf (copyTopToBottom w hh c) x (y + hh) = stored (pixelOf c x y)"
    unfolding copyTopToBottom_def Let_def pixelOf_putImageData [OF assms(1) x y1]
    using assms(4,5) g by simp
  show "pixelOf (copyTopToBottom w hh c) x y = pixelOf c x y"
    unfolding copyTopToBottom_def Let_def pixelOf_putImageData [OF assms(1) x y2]
    using assms(5) by simp
qed

lemma pixelOf_invertTop:
  assumes "length (bitmap c) = 4 * cwidth c * cheight c" "cwidth c = w" "hh \<le> cheight c"
    and "x < w"
  shows "y < hh \<Longrightarrow> pixelOf (invertTop w hh c) x y = stored (invertPixel (pixelOf c x y))"
    and "hh \<le> y \<Longrightarrow> y < cheight c \<Longrightarrow> pixelOf (invertTop w hh c) x y = pixelOf c x y"
proof -
  have x: "x < cwidth c" using assms(2,4) by simp
  {
    assume y: "y < hh"
    then have y2: "y < cheight c" using assms(3) by simp
    have b: "4 * (y * w + x) + 3 < length (idata (getImageData c 0 0 w hh))"
      using idx_bound [OF assms(4) y, of 3] by simp
    have g: "pixelAt (idata (getImageData c 0 0 w hh)) (y * w + x) = pixelOf c x y"
      using pixelAt_getImageData [OF assms(4) y, of 0 c 0] x y2 by simp
    have i: "pixelAt (invertFilter (idata (getImageData c 0 0 w hh))) (y * w + x) =
             invertPixel (pixelOf c x y)"
      unfolding pixelAt_invertFilter [OF b] g ..
    show "pixelOf (invertTop w hh c) x y = stored (invertPixel (pixelOf c x y))"
      unfolding invertTop_def Let_def pixelOf_putImageData [OF assms(1) x y2]
      using assms(4) y i by simp
  }
  {
    assume y: "hh \<le> y" and y2: "y < cheight c"
    show "pixelOf (invertTop w hh c) x y = pixelOf c x y"
      unfolding invertTop_def Let_def pixelOf_putImageData [OF assms(1) x y2]
      using y by simp
  }
qed

lemma pixelOf_halves:
  assumes "length (bitmap c) = 4 * cwidth c * cheight c" "cwidth c = w" "hh + hh \<le> cheight c"
    and "x < w" "y < hh"
  shows "pixelOf (invertTop w hh (copyTopToBottom w hh c)) x (y + hh) = stored (pixelOf c x y)"
    and "pixelOf (invertTop w hh (copyTopToBottom w hh c)) x y =
           stored (invertPixel (pixelOf c x y))"
proof -
  let ?c' = "copyTopToBottom w hh c"
  have len': "length (bitmap ?c') = 4 * cwidth ?c' * cheight ?c'" using assms(1) by simp
  have w': "cwidth ?c' = w" using assms(2) by simp
  have h': "hh \<le> cheight ?c'" using assms(3) by simp
  have yb: "y + hh < cheight ?c'" using assms(3,5) by simp
  have "pixelOf (invertTop w hh ?c') x (y + hh) = pixelOf ?c' x (y + hh)"
    by (rule pixelOf_invertTop(2) [OF len' w' h' assms(4) _ yb]) simp
  also have "\<dots> = stored (pixelOf c x y)"
    by (rule pixelOf_copyTopToBottom(1) [OF assms])
  finally show "pixelOf (invertTop w hh ?c') x (y + hh) = stored (pixelOf c x y)" .
  have "pixelOf (invertTop w hh ?c') x y = stored (invertPixel (pixelOf ?c' x y))"
    by (rule pixelOf_invertTop(1) [OF len' w' h' assms(4,5)])
  also have "pixelOf ?c' x y = pixelOf c x y"
    by (rule pixelOf_copyTopToBottom(2) [OF assms])
  finally show "pixelOf (invertTop w hh ?c') x y = stored (invertPixel (pixelOf c x y))" .
qed

lemma cssColor_black: "cssColor ''#000000'' = Some (0, 0, 0, 255)"
  by (simp add: cssColor_def hexByte_def hexDigit_def)

lemma pixelOf_state_only:
  "pixelOf (save c) x y = pixelOf c x y"
  "pixelOf (restore c) x y = pixelOf c x y"
  "pixelOf (clipRect a b w h c) x y = pixelOf c x y"
  "pixelOf (translate tx ty c) x y = pixelOf c x y"
  "pixelOf (scale kx ky c) x y = pixelOf c x y"
  by (simp_all add: pixelOf_def save_def restore_def clipRect_def translate_def scale_def
      Let_def split: list.splits)

lemma cameraLayer_pixel:
  assumes "x < 1080" "y < 1920"
  shows "pixelOf (cameraLayer env c0) x y =
     (case fitVideo (videoWidth (video env)) (videoHeight (video env)) of
        None \<Rightarrow> (0, 0, 0, 255)
      | Some r \<Rightarrow>
          if y < 960
          then (case raster env
                       \<lparr>painted = VideoFrame, srcRect = None, dstRect = r,
                        under = defaultState
                          \<lparr>transform :=
                             (if facing env = User
                              then \<lparr>scaleX = - 1, scaleY = 1, shiftX = 1080, shiftY = 0\<rparr>
                              else identityMatrix),
                           clip := Some \<lparr>drawX = 0, drawY = 0, drawWidth = 1080,
                                          drawHeight = 960\<rparr>\<rparr>\<rparr>
                       x y (0, 0, 0, 255) of
                  (r, g, b, a) \<Rightarrow> (r, g, b, 255))
          else (0, 0, 0, 255))"
proof -
  define c1 where "c1 = (setHeight STORY_HEIGHT (setWidth STORY_WIDTH c0))
                          \<lparr>state := (state (setHeight STORY_HEIGHT (setWidth STORY_WIDTH c0)))
                             \<lparr>fillStyle := ''#000000''\<rparr>\<rparr>"
  define c2 where "c2 = fillRect (raster env) 0 0 (real STORY_WIDTH) (real STORY_HEIGHT) c1"
  define c3 where "c3 = (let c = clipRect 0 0 (real STORY_WIDTH) (real halfHeight) (save c2)
                         in if facing env = User
                            then scale (- 1) 1 (translate (real STORY_WIDTH) 0 c) else c)"
  have cam: "cameraLayer env c0 =
      restore (drawImage (raster env) VideoFrame None
                 (fitVideo (videoWidth (video env)) (videoHeight (video env))) c3)"
    by (simp add: cameraLayer_def c1_def c2_def c3_def Let_def)
  have c1: "cwidth c1 = 1080" "cheight c1 = 1920" "length (bitmap c1) = 4 * 1080 * 1920"
    "state c1 = defaultState"
    by (simp_all add: c1_def setWidth_def setHeight_def STORY_WIDTH_def STORY_HEIGHT_def
        defaultState_def)
  have len1: "length (bitmap c1) = 4 * cwidth c1 * cheight c1" by (simp add: c1)
  have x1: "x < cwidth c1" and y1: "y < cheight c1" using assms by (simp_all add: c1)
  have p2: "pixelOf c2 x y = (0, 0, 0, 255)"
    unfolding c2_def fillRect_def pixelOf_paintCall [OF len1 x1 y1]
    using assms
    by (simp add: c1 defaultState_def inClip_def paintPixel_def solidFill_def deviceRect_def
        identityMatrix_def cssColor_black STORY_WIDTH_def STORY_HEIGHT_def Let_def)
  have c2: "cwidth c2 = 1080" "cheight c2 = 1920" "length (bitmap c2) = 4 * 1080 * 1920"
    "state c2 = defaultState"
    by (simp_all add: c2_def fillRect_def c1)
  have c3: "cwidth c3 = 1080" "cheight c3 = 1920" "length (bitmap c3) = 4 * 1080 * 1920"
    "state c3 = defaultState
       \<lparr>transform := (if facing env = User
                       then \<lparr>scaleX = - 1, scaleY = 1, shiftX = 1080, shiftY = 0\<rparr>
                       else identityMatrix),
        clip := Some \<lparr>drawX = 0, drawY = 0, drawWidth = 1080, drawHeight = 960\<rparr>\<rparr>"
    by (simp_all add: c3_def c2 Let_def save_def clipRect_def translate_def scale_def
        deviceRect_def defaultState_def identityMatrix_def STORY_WIDTH_def halfHeight_eq)
  have p3: "pixelOf c3 x y = (0, 0, 0, 255)"
    using p2 by (simp add: c3_def Let_def pixelOf_state_only)
  have len3: "length (bitmap c3) = 4 * cwidth c3 * cheight c3" by (simp add: c3)
  have x3: "x < cwidth c3" and y3: "y < cheight c3" using assms by (simp_all add: c3)
  have ic: "inClip (Some \<lparr>drawX = 0, drawY = 0, drawWidth = 1080, drawHeight = 960\<rparr>) x y
              \<longleftrightarrow> y < 960"
    using assms by (auto simp: inClip_def)
  show ?thesis
  proof (cases "fitVideo (videoWidth (video env)) (videoHeight (video env))")
    case None
    then show ?thesis
      unfolding cam by (simp add: pixelOf_state_only drawImage_def p3)
  next
    case (Some r)
    show ?thesis
      unfolding cam Some
      by (simp add: pixelOf_state_only drawImage_def pixelOf_paintCall [OF len3 x3 y3] ic p3
          paintPixel_def solidFill_def alpha_def c3 split: prod.splits)
  qed
qed

lemma cameraLayer_opaque:
  assumes "x < 1080" "y < 1920"
  shows "alpha (pixelOf (cameraLayer env c0) x y) = 255"
  unfolding cameraLayer_pixel [OF assms]
  by (simp add: alpha_def split: option.splits prod.splits)

lemma cameraLayer_part000_pixel:
  assumes "x < videoWidth (video env)" "y < videoHeight (video env)"
  shows "pixelOf (cameraLayer_part000 env c0) x y =
     paintPixel (raster env)
       \<lparr>painted = VideoFrame,
        srcRect = Some \<lparr>drawX = 0, drawY = 0, drawWidth = real (videoWidth (video env)),
                        drawHeight = real (videoHeight (video env))\<rparr>,
        dstRect =
          \<lparr>drawX = (real (videoWidth (video env)) -
                     real (videoHeight (video env) div 2) *
                       (real (videoWidth (video env)) / real (videoHeight (video env)))) / 2,
           drawY = 0,
           drawWidth = real (videoHeight (video env) div 2) *
                         (real (videoWidth (video env)) / real (videoHeight (video env))),
           drawHeight = real (videoHeight (video env) div 2)\<rparr>,
        under = defaultState
          \<lparr>transform := (if facing env = User
                          then \<lparr>scaleX = - 1, scaleY = 1,
                                shiftX = real (videoWidth (video env)), shiftY = 0\<rparr>
                          else identityMatrix)\<rparr>\<rparr>
       x y (0, 0, 0, 0)"
proof -
  let ?vw = "videoWidth (video env)"
  let ?vh = "videoHeight (video env)"
  define c1 where "c1 = setHeight ?vh (setWidth ?vw c0)"
  define c3 where "c3 = (let c = save c1
                         in if facing env = User
                            then scale (- 1) 1 (translate (real ?vw) 0 c) else c)"
  have nz: "?vw \<noteq> 0" "?vh \<noteq> 0" using assms by simp_all
  have cam: "cameraLayer_part000 env c0 =
      restore (paintCall (raster env) VideoFrame
                 (Some \<lparr>drawX = 0, drawY = 0, drawWidth = real ?vw, drawHeight = real ?vh\<rparr>)
                 \<lparr>drawX = (real ?vw - real (?vh div 2) * (real ?vw / real ?vh)) / 2,
                  drawY = 0,
                  drawWidth = real (?vh div 2) * (real ?vw / real ?vh),
                  drawHeight = real (?vh div 2)\<rparr> c3)"
    using nz by (simp add: cameraLayer_part000_def c1_def c3_def Let_def drawImage_def)
  have c3: "cwidth c3 = ?vw" "cheight c3 = ?vh" "length (bitmap c3) = 4 * ?vw * ?vh"
    "state c3 = defaultState
       \<lparr>transform := (if facing env = User
                       then \<lparr>scaleX = - 1, scaleY = 1, shiftX = real ?vw, shiftY = 0\<rparr>
                       else identityMatrix)\<rparr>"
    "bitmap c3 = replicate (4 * ?vw * ?vh) 0"
    by (simp_all add: c3_def c1_def Let_def save_def translate_def scale_def setWidth_def
        setHeight_def defaultState_def identityMatrix_def)
  have len3: "length (bitmap c3) = 4 * cwidth c3 * cheight c3" by (simp add: c3)
  have x3: "x < cwidth c3" and y3: "y < cheight c3" using assms by (simp_all add: c3)
  have b: "4 * (y * ?vw + x) + 3 < 4 * ?vw * ?vh"
    using idx_bound [OF assms, of 3] by simp
  have p3: "pixelOf c3 x y = (0, 0, 0, 0)"
    using b by (simp add: pixelOf_def pixelAt_def c3)
  have nc: "inClip (clip defaultState) x y"
    by (simp add: inClip_def defaultState_def)
  show ?thesis
    unfolding cam
    by (simp add: pixelOf_state_only pixelOf_paintCall [OF len3 x3 y3] nc p3 c3)
qed

lemma splitView_pixels:
  assumes "x < STORY_WIDTH" "y < halfHeight"
  shows "pixelOf (splitView env c0) x (y + halfHeight) = pixelOf (cameraLayer env c0) x y"
    and "pixelOf (splitView env c0) x y = invertPixel (pixelOf (cameraLayer env c0) x y)"
proof -
  let ?c = "cameraLayer env c0"
  have len: "length (bitmap ?c) = 4 * cwidth ?c * cheight ?c"
    by (simp add: cameraLayer_fields)
  have w: "cwidth ?c = STORY_WIDTH" by (simp add: cameraLayer_fields STORY_WIDTH_def)
  have h: "halfHeight + halfHeight \<le> cheight ?c"
    by (simp add: cameraLayer_fields halfHeight_eq)
  have x: "x < 1080" and y: "y < 1920"
    using assms by (simp_all add: STORY_WIDTH_def halfHeight_eq)
  have op: "alpha (pixelOf ?c x y) = 255" by (rule cameraLayer_opaque [OF x y])
  then have op': "alpha (invertPixel (pixelOf ?c x y)) = 255" by simp
  show "pixelOf (splitView env c0) x (y + halfHeight) = pixelOf ?c x y"
    unfolding splitView_def pixelOf_halves(1) [OF len w h assms] by (rule stored_opaque [OF op])
  show "pixelOf (splitView env c0) x y = invertPixel (pixelOf ?c x y)"
    unfolding splitView_def pixelOf_halves(2) [OF len w h assms] by (rule stored_opaque [OF op'])
qed

lemma splitView_bytes:
  assumes "x < STORY_WIDTH" "y < halfHeight" "k < 4"
  shows "byteAt (splitView env c0) x (y + halfHeight) k = byteAt (cameraLayer env c0) x y k"
    and "byteAt (splitView env c0) x y k =
           (if k = 3 then byteAt (cameraLayer env c0) x y k
            else toUint8Clamp (255 - uint (byteAt (cameraLayer env c0) x y k)))"
proof -
  have "channel (pixelOf (splitView env c0) x (y + halfHeight)) k =
        channel (pixelOf (cameraLayer env c0) x y) k"
    by (simp only: splitView_pixels(1) [OF assms(1,2)])
  then show "byteAt (splitView env c0) x (y + halfHeight) k = byteAt (cameraLayer env c0) x y k"
    by (simp only: channel_pixelOf [OF assms(3)])
  have e: "byteAt (splitView env c0) x y k =
        channel (invertPixel (pixelOf (cameraLayer env c0) x y)) k"
    by (simp only: splitView_pixels(2) [OF assms(1,2), symmetric] channel_pixelOf [OF assms(3)])
  show "byteAt (splitView env c0) x y k =
           (if k = 3 then byteAt (cameraLayer env c0) x y k
            else toUint8Clamp (255 - uint (byteAt (cameraLayer env c0) x y k)))"
  proof (cases "k = 3")
    case True
    then show ?thesis
      using e channel_pixelOf [of 3 "cameraLayer env c0" x y]
      by (simp add: channel_invertPixel(2))
  next
    case False
    then have k3: "k < 3" using assms(3) by simp
    show ?thesis
      using False e
      by (simp add: channel_invertPixel(1) [OF k3] channel_pixelOf [OF assms(3)])
  qed
qed

lemma splitView_part000_pixels:
  assumes "x < videoWidth (video env)" "y < videoHeight (video env) div 2"
  shows "\<exists>c. splitView_part000 env c0 = Inr c \<and>
           drawn c = drawn (cameraLayer_part000 env c0) \<and>
           pixelOf c x (y + videoHeight (video env) div 2) =
             stored (pixelOf (cameraLayer_part000 env c0) x y) \<and>
           pixelOf c x y = stored (invertPixel (pixelOf (cameraLayer_part000 env c0) x y))"
proof -
  let ?w = "videoWidth (video env)"
  let ?hh = "videoHeight (video env) div 2"
  let ?c = "cameraLayer_part000 env c0"
  have ok: "splitView_part000 env c0 = Inr (invertTop ?w ?hh (copyTopToBottom ?w ?hh ?c))"
    using assms by (simp add: splitView_part000_def Let_def)
  have len: "length (bitmap ?c) = 4 * cwidth ?c * cheight ?c"
    by (simp add: cameraLayer_part000_fields)
  have w: "cwidth ?c = ?w" by (simp add: cameraLayer_part000_fields)
  have h: "?hh + ?hh \<le> cheight ?c" by (simp add: cameraLayer_part000_fields)
  show ?thesis
    unfolding ok
    using pixelOf_halves [OF len w h assms] by simp
qed

subsection \<open>What the context is asked to paint\<close>

lemma cameraLayer_drawn:
  "drawn (cameraLayer env c0) =
     drawn c0 @
     [\<lparr>painted = FillColor ''#000000'', srcRect = None,
       dstRect = \<lparr>drawX = 0, drawY = 0, drawWidth = 1080, drawHeight = 1920\<rparr>,
       under = defaultState\<rparr>] @
     (case fitVideo (videoWidth (video env)) (videoHeight (video env)) of
        None \<Rightarrow> []
      | Some r \<Rightarrow>
          [\<lparr>painted = VideoFrame, srcRect = None, dstRect = r,
            under = defaultState
              \<lparr>transform := (if facing env = User
                              then \<lparr>scaleX = - 1, scaleY = 1, shiftX = 1080, shiftY = 0\<rparr>
                              else identityMatrix),
               clip := Some \<lparr>drawX = 0, drawY = 0, drawWidth = 1080, drawHeight = 960\<rparr>\<rparr>\<rparr>])"
  by (simp add: cameraLayer_def Let_def restore_def save_def clipRect_def fillRect_def
      setWidth_def setHeight_def translate_def scale_def defaultState_def STORY_WIDTH_def
      STORY_HEIGHT_def halfHeight_eq drawImage_drawn deviceRect_def identityMatrix_def
      split: option.splits)

lemma splitView_drawn: "drawn (splitView env c0) = drawn (cameraLayer env c0)"
  by (simp add: splitView_def)

lemma splitView_state: "state (splitView env c0) = defaultState"
  by (simp add: splitView_def cameraLayer_fields)

lemma drawProduct_drawn:
  "drawn (drawProduct env c) =
     drawn c @
     (case productImageRef env of
        None \<Rightarrow> []
      | Some img \<Rightarrow>
          (case productRect img of
             None \<Rightarrow> []
           | Some r \<Rightarrow>
               [\<lparr>painted = ProductImage, srcRect = None, dstRect = r,
                 under = (state c)\<lparr>shadowColor := ''rgba(0, 0, 0, 0.5)'', shadowBlur := 20,
                           shadowOffsetX := 4, shadowOffsetY := 4\<rparr>\<rparr>]))"
  by (simp add: drawProduct_def Let_def drawImage_drawn split: option.splits)

lemma productRect_Some:
  assumes "0 < naturalHeight img"
  shows "productRect img =
           Some \<lparr>drawX = (1080 - 1728 / 5 * (real (naturalWidth img) / real (naturalHeight img))) / 2
                        - 972 / 5,
                 drawY = 960 - 864 / 5,
                 drawWidth = 1728 / 5 * (real (naturalWidth img) / real (naturalHeight img)),
                 drawHeight = 1728 / 5\<rparr>"
  using assms
  by (simp add: productRect_def Let_def STORY_WIDTH_def STORY_HEIGHT_def halfHeight_eq)

text \<open>
  Claim C8. Once the product image has loaded (with its natural size, so a natural height
  that is not zero), every composited frame draws it last, 18 percent of the story height
  high, as wide as its natural aspect ratio asks, vertically centred on the line between
  the halves (\<open>y = halfHeight - productHeight / 2\<close>) and with its centre 18 percent of the
  story width to the left of the centre of the canvas.
\<close>

theorem product_overlay_geometry:
  assumes "readyState (video env) = HAVE_ENOUGH_DATA"
    and "productImageRef env = Some img"
    and "0 < naturalHeight img"
  shows "case productRect img of
           None \<Rightarrow> False
         | Some r \<Rightarrow>
             drawn (processFrame env c0) =
               drawn (splitView env c0) @
               [\<lparr>painted = ProductImage, srcRect = None, dstRect = r,
                 under = defaultState\<lparr>shadowColor := ''rgba(0, 0, 0, 0.5)'', shadowBlur := 20,
                           shadowOffsetX := 4, shadowOffsetY := 4\<rparr>\<rparr>] \<and>
             drawHeight r = 18 / 100 * real STORY_HEIGHT \<and>
             drawWidth r * real (naturalHeight img) = drawHeight r * real (naturalWidth img) \<and>
             drawY r = real halfHeight - drawHeight r / 2 \<and>
             drawY r + drawHeight r / 2 = real STORY_HEIGHT / 2 \<and>
             drawX r + drawWidth r / 2 = real STORY_WIDTH / 2 - 18 / 100 * real STORY_WIDTH"
proof -
  have d: "drawn (processFrame env c0) =
      drawn (splitView env c0) @
      (case productRect img of
         None \<Rightarrow> []
       | Some r \<Rightarrow>
           [\<lparr>painted = ProductImage, srcRect = None, dstRect = r,
             under = defaultState\<lparr>shadowColor := ''rgba(0, 0, 0, 0.5)'', shadowBlur := 20,
                       shadowOffsetX := 4, shadowOffsetY := 4\<rparr>\<rparr>])"
    using assms(1,2)
    by (simp add: processFrame_def drawProduct_drawn splitView_state split: option.splits)
  have nz: "real (naturalHeight img) \<noteq> 0" using assms(3) by simp
  show ?thesis
    unfolding d productRect_Some [OF assms(3)]
    using nz by (simp add: STORY_WIDTH_def STORY_HEIGHT_def halfHeight_eq field_simps)
qed

theorem product_overlay_geometry_witness:
  "readyState \<lparr>readyState = 4, videoWidth = 1920, videoHeight = 1080\<rparr> = HAVE_ENOUGH_DATA \<and>
   (0::nat) < naturalHeight \<lparr>naturalWidth = 400, naturalHeight = 800\<rparr> \<and>
   productRect \<lparr>naturalWidth = 400, naturalHeight = 800\<rparr> =
     Some \<lparr>drawX = 1296 / 5, drawY = 3936 / 5, drawWidth = 864 / 5, drawHeight = 1728 / 5\<rparr>"
  using product_overlay_geometry [of
      "\<lparr>video = \<lparr>readyState = 4, videoWidth = 1920, videoHeight = 1080\<rparr>, facing = User,
        productImageRef = Some \<lparr>naturalWidth = 400, naturalHeight = 800\<rparr>, raster = sampleRaster\<rparr>"
      "\<lparr>naturalWidth = 400, naturalHeight = 800\<rparr>" newCanvas]
  by (simp add: HAVE_ENOUGH_DATA_def productRect_Some)


lemma cameraLayer_part000_drawn:
  "drawn (cameraLayer_part000 env c0) =
     drawn c0 @
     (if videoWidth (video env) = 0 \<or> videoHeight (video env) = 0 then []
      else [\<lparr>painted = VideoFrame,
             srcRect = Some \<lparr>drawX = 0, drawY = 0, drawWidth = real (videoWidth (video env)),
                             drawHeight = real (videoHeight (video env))\<rparr>,
             dstRect =
               \<lparr>drawX = (real (videoWidth (video env)) -
                          real (videoHeight (video env) div 2) *
                            (real (videoWidth (video env)) / real (videoHeight (video env)))) / 2,
                drawY = 0,
                drawWidth = real (videoHeight (video env) div 2) *
                              (real (videoWidth (video env)) / real (videoHeight (video env))),
                drawHeight = real (videoHeight (video env) div 2)\<rparr>,
             under = defaultState
               \<lparr>transform := (if facing env = User
                               then \<lparr>scaleX = - 1, scaleY = 1,
                                     shiftX = real (videoWidth (video env)), shiftY = 0\<rparr>
                               else identityMatrix)\<rparr>\<rparr>])"
  by (simp add: cameraLayer_part000_def Let_def restore_def save_def
      setWidth_def setHeight_def translate_def scale_def defaultState_def
      drawImage_drawn identityMatrix_def)

lemma drawProduct_part000_drawn:
  "drawn (drawProduct_part000 env c) =
     drawn c @
     (case productImageRef env of
        None \<Rightarrow> []
      | Some img \<Rightarrow>
          (case productRect_part000 (videoWidth (video env)) (videoHeight (video env)) img of
             None \<Rightarrow> []
           | Some r \<Rightarrow>
               [\<lparr>painted = ProductImage, srcRect = None, dstRect = r,
                 under = (state c)\<lparr>shadowColor := ''rgba(0, 0, 0, 0.6)'', shadowBlur := 25,
                           shadowOffsetX := 5, shadowOffsetY := 5\<rparr>\<rparr>]))"
  by (simp add: drawProduct_part000_def Let_def drawImage_drawn split: option.splits)

lemma processFrame_drawn:
  assumes "readyState (video env) = HAVE_ENOUGH_DATA"
  shows "drawn (processFrame env c0) =
     drawn c0 @
     [\<lparr>painted = FillColor ''#000000'', srcRect = None,
       dstRect = \<lparr>drawX = 0, drawY = 0, drawWidth = 1080, drawHeight = 1920\<rparr>,
       under = defaultState\<rparr>] @
     (case fitVideo (videoWidth (video env)) (videoHeight (video env)) of
        None \<Rightarrow> []
      | Some r \<Rightarrow>
          [\<lparr>painted = VideoFrame, srcRect = None, dstRect = r,
            under = defaultState
              \<lparr>transform := (if facing env = User
                              then \<lparr>scaleX = - 1, scaleY = 1, shiftX = 1080, shiftY = 0\<rparr>
                              else identityMatrix),
               clip := Some \<lparr>drawX = 0, drawY = 0, drawWidth = 1080, drawHeight = 960\<rparr>\<rparr>\<rparr>]) @
     (case productImageRef env of
        None \<Rightarrow> []
      | Some img \<Rightarrow>
          (case productRect img of
             None \<Rightarrow> []
           | Some p \<Rightarrow>
               [\<lparr>painted = ProductImage, srcRect = None, dstRect = p,
                 under = defaultState\<lparr>shadowColor := ''rgba(0, 0, 0, 0.5)'', shadowBlur := 20,
                           shadowOffsetX := 4, shadowOffsetY := 4\<rparr>\<rparr>]))"
  using assms
  by (simp add: processFrame_def drawProduct_drawn splitView_state splitView_drawn
      cameraLayer_drawn split: option.splits)

lemma processFrame_part000_drawn:
  assumes "readyState (video env) = HAVE_ENOUGH_DATA"
    and "0 < videoWidth (video env)" and "2 \<le> videoHeight (video env)"
  shows "\<exists>c. processFrame_part000 env c0 = Inr c \<and>
     drawn c =
     drawn c0 @
     [\<lparr>painted = VideoFrame,
             srcRect = Some \<lparr>drawX = 0, drawY = 0, drawWidth = real (videoWidth (video env)),
                             drawHeight = real (videoHeight (video env))\<rparr>,
             dstRect =
               \<lparr>drawX = (real (videoWidth (video env)) -
                          real (videoHeight (video env) div 2) *
                            (real (videoWidth (video env)) / real (videoHeight (video env)))) / 2,
                drawY = 0,
                drawWidth = real (videoHeight (video env) div 2) *
                              (real (videoWidth (video env)) / real (videoHeight (video env))),
                drawHeight = real (videoHeight (video env) div 2)\<rparr>,
             under = defaultState
               \<lparr>transform := (if facing env = User
                               then \<lparr>scaleX = - 1, scaleY = 1,
                                     shiftX = real (videoWidth (video env)), shiftY = 0\<rparr>
                               else identityMatrix)\<rparr>\<rparr>] @
     (case productImageRef env of
        None \<Rightarrow> []
      | Some img \<Rightarrow>
          (case productRect_part000 (videoWidth (video env)) (videoHeight (video env)) img of
             None \<Rightarrow> []
           | Some p \<Rightarrow>
               [\<lparr>painted = ProductImage, srcRect = None, dstRect = p,
                 under = defaultState\<lparr>shadowColor := ''rgba(0, 0, 0, 0.6)'', shadowBlur := 25,
                           shadowOffsetX := 5, shadowOffsetY := 5\<rparr>\<rparr>]))"
proof -
  have hh: "videoHeight (video env) div 2 \<noteq> 0" using assms(3) by simp
  have nz: "videoHeight (video env) \<noteq> 0" using assms(3) by simp
  show ?thesis
    using assms(1,2) hh nz
    by (simp add: processFrame_part000_def splitView_part000_def Let_def
        drawProduct_part000_drawn cameraLayer_part000_drawn cameraLayer_part000_fields
        split: option.splits)
qed

text \<open>
  Claim C3 says that every frame goes through scaling, mirroring, clipping, inversion and
  the overlay. With the camera facing the environment and the product image not loaded
  yet, the frame has neither a mirroring nor an overlay: the context receives the
  background fill and the video under the identity transformation, and nothing else.
\<close>

theorem processFrame_steps_counterexample:
  "drawn (processFrame
            \<lparr>video = \<lparr>readyState = 4, videoWidth = 1920, videoHeight = 1080\<rparr>,
             facing = Environment, productImageRef = None, raster = sampleRaster\<rparr> newCanvas) =
     [\<lparr>painted = FillColor ''#000000'', srcRect = None,
       dstRect = \<lparr>drawX = 0, drawY = 0, drawWidth = 1080, drawHeight = 1920\<rparr>,
       under = defaultState\<rparr>,
      \<lparr>painted = VideoFrame, srcRect = None,
       dstRect = \<lparr>drawX = - 940 / 3, drawY = 0, drawWidth = 5120 / 3, drawHeight = 960\<rparr>,
       under = defaultState
         \<lparr>clip := Some \<lparr>drawX = 0, drawY = 0, drawWidth = 1080, drawHeight = 960\<rparr>\<rparr>\<rparr>] \<and>
   ProductImage \<notin> painted ` set (drawn (processFrame
            \<lparr>video = \<lparr>readyState = 4, videoWidth = 1920, videoHeight = 1080\<rparr>,
             facing = Environment, productImageRef = None, raster = sampleRaster\<rparr> newCanvas)) \<and>
   transform (under (last (drawn (processFrame
            \<lparr>video = \<lparr>readyState = 4, videoWidth = 1920, videoHeight = 1080\<rparr>,
             facing = Environment, productImageRef = None, raster = sampleRaster\<rparr> newCanvas)))) =
     identityMatrix"
proof -
  have f: "fitVideo 1920 1080 =
     Some \<lparr>drawX = - 940 / 3, drawY = 0, drawWidth = 5120 / 3, drawHeight = 960\<rparr>"
    by (simp add: fitVideo_def targetAspect_eq halfHeight_eq STORY_WIDTH_def Let_def)
  have d: "drawn (processFrame
            \<lparr>video = \<lparr>readyState = 4, videoWidth = 1920, videoHeight = 1080\<rparr>,
             facing = Environment, productImageRef = None, raster = sampleRaster\<rparr> newCanvas) =
     [\<lparr>painted = FillColor ''#000000'', srcRect = None,
       dstRect = \<lparr>drawX = 0, drawY = 0, drawWidth = 1080, drawHeight = 1920\<rparr>,
       under = defaultState\<rparr>,
      \<lparr>painted = VideoFrame, srcRect = None,
       dstRect = \<lparr>drawX = - 940 / 3, drawY = 0, drawWidth = 5120 / 3, drawHeight = 960\<rparr>,
       under = defaultState
         \<lparr>clip := Some \<lparr>drawX = 0, drawY = 0, drawWidth = 1080, drawHeight = 960\<rparr>\<rparr>\<rparr>]"
    by (simp add: processFrame_drawn HAVE_ENOUGH_DATA_def f newCanvas_def defaultState_def
        identityMatrix_def)
  show ?thesis unfolding d by (simp add: defaultState_def)
qed


text \<open>
  Claim C3, amended. Every processed frame (the video has data and a size) is produced by
  scaling the camera frame into the computed rectangle, clipping it to the top half of the
  canvas and inverting the colour channels of that half; it is mirrored horizontally
  exactly when the facing mode is \<^verbatim>\<open>'user'\<close>, and the overlay image is drawn exactly when
  the product image has loaded. The earlier revision does the same without a clip.
\<close>

theorem processFrame_steps:
  assumes "readyState (video env) = HAVE_ENOUGH_DATA"
    and "0 < videoWidth (video env)" and "0 < videoHeight (video env)"
  shows "(case fitVideo (videoWidth (video env)) (videoHeight (video env)) of
            None \<Rightarrow> False
          | Some r \<Rightarrow>
              drawn (processFrame env c0) =
                drawn c0 @
                [\<lparr>painted = FillColor ''#000000'', srcRect = None,
                  dstRect = \<lparr>drawX = 0, drawY = 0, drawWidth = 1080, drawHeight = 1920\<rparr>,
                  under = defaultState\<rparr>,
                 \<lparr>painted = VideoFrame, srcRect = None, dstRect = r,
                  under = defaultState
                    \<lparr>transform :=
                       (if facing env = User
                        then \<lparr>scaleX = - 1, scaleY = 1, shiftX = 1080, shiftY = 0\<rparr>
                        else identityMatrix),
                     clip := Some \<lparr>drawX = 0, drawY = 0, drawWidth = 1080, drawHeight = 960\<rparr>\<rparr>\<rparr>] @
                (case productImageRef env of
                   None \<Rightarrow> []
                 | Some img \<Rightarrow>
                     (case productRect img of
                        None \<Rightarrow> []
                      | Some p \<Rightarrow>
                          [\<lparr>painted = ProductImage, srcRect = None, dstRect = p,
                            under = defaultState
                              \<lparr>shadowColor := ''rgba(0, 0, 0, 0.5)'', shadowBlur := 20,
                               shadowOffsetX := 4, shadowOffsetY := 4\<rparr>\<rparr>]))) \<and>
         processFrame env c0 = drawProduct env (splitView env c0) \<and>
         (x < STORY_WIDTH \<and> y < halfHeight \<and> k < 3 \<longrightarrow>
            uint (byteAt (splitView env c0) x y k) =
              255 - uint (byteAt (cameraLayer env c0) x y k)) \<and>
         (2 \<le> videoHeight (video env) \<longrightarrow>
            (case processFrame_part000 env c0 of
               Inl e \<Rightarrow> False
             | Inr c \<Rightarrow>
                 drawn c =
                   drawn c0 @
                   [\<lparr>painted = VideoFrame,
                     srcRect = Some \<lparr>drawX = 0, drawY = 0,
                                     drawWidth = real (videoWidth (video env)),
                                     drawHeight = real (videoHeight (video env))\<rparr>,
                     dstRect =
                       \<lparr>drawX = (real (videoWidth (video env)) -
                                  real (videoHeight (video env) div 2) *
                                    (real (videoWidth (video env)) /
                                     real (videoHeight (video env)))) / 2,
                        drawY = 0,
                        drawWidth = real (videoHeight (video env) div 2) *
                                      (real (videoWidth (video env)) /
                                       real (videoHeight (video env))),
                        drawHeight = real (videoHeight (video env) div 2)\<rparr>,
                     under = defaultState
                       \<lparr>transform :=
                          (if facing env = User
                           then \<lparr>scaleX = - 1, scaleY = 1,
                                 shiftX = real (videoWidth (video env)), shiftY = 0\<rparr>
                           else identityMatrix)\<rparr>\<rparr>] @
                   (case productImageRef env of
                      None \<Rightarrow> []
                    | Some img \<Rightarrow>
                        (case productRect_part000 (videoWidth (video env))
                                (videoHeight (video env)) img of
                           None \<Rightarrow> []
                         | Some p \<Rightarrow>
                             [\<lparr>painted = ProductImage, srcRect = None, dstRect = p,
                               under = defaultState
                                 \<lparr>shadowColor := ''rgba(0, 0, 0, 0.6)'', shadowBlur := 25,
                                  shadowOffsetX := 5, shadowOffsetY := 5\<rparr>\<rparr>]))))"
proof (intro conjI impI)
  from fitVideo_Some [OF assms(2,3)]
  obtain r where r: "fitVideo (videoWidth (video env)) (videoHeight (video env)) = Some r"
    by blast
  show "case fitVideo (videoWidth (video env)) (videoHeight (video env)) of
            None \<Rightarrow> False
          | Some r \<Rightarrow>
              drawn (processFrame env c0) =
                drawn c0 @
                [\<lparr>painted = FillColor ''#000000'', srcRect = None,
                  dstRect = \<lparr>drawX = 0, drawY = 0, drawWidth = 1080, drawHeight = 1920\<rparr>,
                  under = defaultState\<rparr>,
                 \<lparr>painted = VideoFrame, srcRect = None, dstRect = r,
                  under = defaultState
                    \<lparr>transform :=
                       (if facing env = User
                        then \<lparr>scaleX = - 1, scaleY = 1, shiftX = 1080, shiftY = 0\<rparr>
                        else identityMatrix),
                     clip := Some \<lparr>drawX = 0, drawY = 0, drawWidth = 1080, drawHeight = 960\<rparr>\<rparr>\<rparr>] @
                (case productImageRef env of
                   None \<Rightarrow> []
                 | Some img \<Rightarrow>
                     (case productRect img of
                        None \<Rightarrow> []
                      | Some p \<Rightarrow>
                          [\<lparr>painted = ProductImage, srcRect = None, dstRect = p,
                            under = defaultState
                              \<lparr>shadowColor := ''rgba(0, 0, 0, 0.5)'', shadowBlur := 20,
                               shadowOffsetX := 4, shadowOffsetY := 4\<rparr>\<rparr>]))"
    unfolding processFrame_drawn [OF assms(1)] r by simp
next
  show "processFrame env c0 = drawProduct env (splitView env c0)"
    using assms(1) by (simp add: processFrame_def)
next
  assume a: "x < STORY_WIDTH \<and> y < halfHeight \<and> k < 3"
  then have x: "x < STORY_WIDTH" and y: "y < halfHeight" and k: "k < 4" by simp_all
  show "uint (byteAt (splitView env c0) x y k) = 255 - uint (byteAt (cameraLayer env c0) x y k)"
    using a splitView_bytes(2) [OF x y k] by (simp add: uint_toUint8Clamp_invert)
next
  assume h: "2 \<le> videoHeight (video env)"
  from processFrame_part000_drawn [OF assms(1,2) h, of c0]
  show "case processFrame_part000 env c0 of
               Inl e \<Rightarrow> False
             | Inr c \<Rightarrow>
                 drawn c =
                   drawn c0 @
                   [\<lparr>painted = VideoFrame,
                     srcRect = Some \<lparr>drawX = 0, drawY = 0,
                                     drawWidth = real (videoWidth (video env)),
                                     drawHeight = real (videoHeight (video env))\<rparr>,
                     dstRect =
                       \<lparr>drawX = (real (videoWidth (video env)) -
                                  real (videoHeight (video env) div 2) *
                                    (real (videoWidth (video env)) /
                                     real (videoHeight (video env)))) / 2,
                        drawY = 0,
                        drawWidth = real (videoHeight (video env) div 2) *
                                      (real (videoWidth (video env)) /
                                       real (videoHeight (video env))),
                        drawHeight = real (videoHeight (video env) div 2)\<rparr>,
                     under = defaultState
                       \<lparr>transform :=
                          (if facing env = User
                           then \<lparr>scaleX = - 1, scaleY = 1,
                                 shiftX = real (videoWidth (video env)), shiftY = 0\<rparr>
                           else identityMatrix)\<rparr>\<rparr>] @
                   (case productImageRef env of
                      None \<Rightarrow> []
                    | Some img \<Rightarrow>
                        (case productRect_part000 (videoWidth (video env))
                                (videoHeight (video env)) img of
                           None \<Rightarrow> []
                         | Some p \<Rightarrow>
                             [\<lparr>painted = ProductImage, srcRect = None, dstRect = p,
                               under = defaultState
                                 \<lparr>shadowColor := ''rgba(0, 0, 0, 0.6)'', shadowBlur := 25,
                                  shadowOffsetX := 5, shadowOffsetY := 5\<rparr>\<rparr>]))"
    by auto
qed

theorem processFrame_steps_witness:
  "readyState \<lparr>readyState = 4, videoWidth = 1920, videoHeight = 1080\<rparr> = HAVE_ENOUGH_DATA \<and>
   (0::nat) < 1920 \<and> (0::nat) < 1080 \<and> (2::nat) \<le> 1080 \<and>
   map painted (drawn (processFrame
       \<lparr>video = \<lparr>readyState = 4, videoWidth = 1920, videoHeight = 1080\<rparr>, facing = User,
        productImageRef = Some \<lparr>naturalWidth = 400, naturalHeight = 800\<rparr>,
        raster = sampleRaster\<rparr> newCanvas)) =
     [FillColor ''#000000'', VideoFrame, ProductImage] \<and>
   map (scaleX \<circ> transform \<circ> under) (drawn (processFrame
       \<lparr>video = \<lparr>readyState = 4, videoWidth = 1920, videoHeight = 1080\<rparr>, facing = User,
        productImageRef = Some \<lparr>naturalWidth = 400, naturalHeight = 800\<rparr>,
        raster = sampleRaster\<rparr> newCanvas)) = [1, - 1, 1]"
proof -
  let ?env = "\<lparr>video = \<lparr>readyState = 4, videoWidth = 1920, videoHeight = 1080\<rparr>, facing = User,
        productImageRef = Some \<lparr>naturalWidth = 400, naturalHeight = 800\<rparr>,
        raster = sampleRaster\<rparr>"
  have f: "fitVideo 1920 1080 =
     Some \<lparr>drawX = - 940 / 3, drawY = 0, drawWidth = 5120 / 3, drawHeight = 960\<rparr>"
    by (simp add: fitVideo_def targetAspect_eq halfHeight_eq STORY_WIDTH_def Let_def)
  have n: "drawn newCanvas = []" by (simp add: newCanvas_def)
  have h1: "readyState (video ?env) = HAVE_ENOUGH_DATA" by (simp add: HAVE_ENOUGH_DATA_def)
  have h2: "0 < videoWidth (video ?env)" and h3: "0 < videoHeight (video ?env)" by simp_all
  have "map painted (drawn (processFrame ?env newCanvas)) =
          [FillColor ''#000000'', VideoFrame, ProductImage] \<and>
        map (scaleX \<circ> transform \<circ> under) (drawn (processFrame ?env newCanvas)) = [1, - 1, 1]"
    using processFrame_steps [OF h1 h2 h3, of newCanvas 0 0 0, THEN conjunct1]
    by (simp add: productRect_Some f n defaultState_def identityMatrix_def)
  then show ?thesis by (simp add: HAVE_ENOUGH_DATA_def)
qed

subsection \<open>The two halves\<close>

text \<open>
  Claim C1. Every rendered frame shows one camera frame in both halves. The video is drawn
  once (the only \<^verbatim>\<open>drawImage\<close> of the video), into the top half; STEP 2 and STEP 3 copy
  those pixels to the bottom half and STEP 4 inverts the top half. So after STEP 4 a pixel
  of the bottom half holds what the browser made of the camera frame at the same place of
  the top half, and the pixel of the top half holds that colour with red, green and blue
  replaced by 255 minus themselves and alpha kept. This is the canvas the product image is
  then drawn on, and the whole frame when no product image is loaded. In the earlier
  revision, which draws on a transparent canvas and leaves margins beside the video, the
  same holds where the camera drawing is opaque, and a pixel it left transparent is
  transparent black in both halves.
\<close>

theorem splitView_same_frame:
  assumes "k < 4"
  shows "(readyState (video env) = HAVE_ENOUGH_DATA \<longrightarrow>
            processFrame env c0 = drawProduct env (splitView env c0)) \<and>
         (readyState (video env) = HAVE_ENOUGH_DATA \<and> productImageRef env = None \<longrightarrow>
            processFrame env c0 = splitView env c0) \<and>
         (x < STORY_WIDTH \<and> y < halfHeight \<longrightarrow>
            byteAt (splitView env c0) x (y + halfHeight) k = byteAt (cameraLayer env c0) x y k \<and>
            (k < 3 \<longrightarrow> uint (byteAt (splitView env c0) x y k) =
                          255 - uint (byteAt (cameraLayer env c0) x y k)) \<and>
            (k = 3 \<longrightarrow> byteAt (splitView env c0) x y k = byteAt (cameraLayer env c0) x y k)) \<and>
         (x < STORY_WIDTH \<and> y < halfHeight \<and>
          0 < videoWidth (video env) \<and> 0 < videoHeight (video env) \<longrightarrow>
            (case fitVideo (videoWidth (video env)) (videoHeight (video env)) of
               None \<Rightarrow> False
             | Some r \<Rightarrow>
                 drawn (splitView env c0) =
                   drawn c0 @
                   [\<lparr>painted = FillColor ''#000000'', srcRect = None,
                     dstRect = \<lparr>drawX = 0, drawY = 0, drawWidth = 1080, drawHeight = 1920\<rparr>,
                     under = defaultState\<rparr>,
                    \<lparr>painted = VideoFrame, srcRect = None, dstRect = r,
                     under = defaultState
                       \<lparr>transform :=
                          (if facing env = User
                           then \<lparr>scaleX = - 1, scaleY = 1, shiftX = 1080, shiftY = 0\<rparr>
                           else identityMatrix),
                        clip := Some \<lparr>drawX = 0, drawY = 0, drawWidth = 1080,
                                       drawHeight = 960\<rparr>\<rparr>\<rparr>] \<and>
                 pixelOf (cameraLayer env c0) x y =
                   (case raster env
                           \<lparr>painted = VideoFrame, srcRect = None, dstRect = r,
                            under = defaultState
                              \<lparr>transform :=
                                 (if facing env = User
                                  then \<lparr>scaleX = - 1, scaleY = 1, shiftX = 1080, shiftY = 0\<rparr>
                                  else identityMatrix),
                               clip := Some \<lparr>drawX = 0, drawY = 0, drawWidth = 1080,
                                              drawHeight = 960\<rparr>\<rparr>\<rparr>
                           x y (0, 0, 0, 255) of
                      (vr, vg, vb, va) \<Rightarrow> (vr, vg, vb, 255)) \<and>
                 pixelOf (splitView env c0) x (y + halfHeight) = pixelOf (cameraLayer env c0) x y \<and>
                 pixelOf (splitView env c0) x y =
                   invertPixel (pixelOf (cameraLayer env c0) x y))) \<and>
         (x < videoWidth (video env) \<and> y < videoHeight (video env) div 2 \<longrightarrow>
            (case splitView_part000 env c0 of
               Inl e \<Rightarrow> False
             | Inr c \<Rightarrow>
                 drawn c =
                   drawn c0 @
                   [\<lparr>painted = VideoFrame,
                     srcRect = Some \<lparr>drawX = 0, drawY = 0,
                                     drawWidth = real (videoWidth (video env)),
                                     drawHeight = real (videoHeight (video env))\<rparr>,
                     dstRect =
                       \<lparr>drawX = (real (videoWidth (video env)) -
                                  real (videoHeight (video env) div 2) *
                                    (real (videoWidth (video env)) /
                                     real (videoHeight (video env)))) / 2,
                        drawY = 0,
                        drawWidth = real (videoHeight (video env) div 2) *
                                      (real (videoWidth (video env)) /
                                       real (videoHeight (video env))),
                        drawHeight = real (videoHeight (video env) div 2)\<rparr>,
                     under = defaultState
                       \<lparr>transform :=
                          (if facing env = User
                           then \<lparr>scaleX = - 1, scaleY = 1,
                                 shiftX = real (videoWidth (video env)), shiftY = 0\<rparr>
                           else identityMatrix)\<rparr>\<rparr>] \<and>
                 pixelOf (cameraLayer_part000 env c0) x y =
                   paintPixel (raster env)
                     \<lparr>painted = VideoFrame,
                      srcRect = Some \<lparr>drawX = 0, drawY = 0,
                                      drawWidth = real (videoWidth (video env)),
                                      drawHeight = real (videoHeight (video env))\<rparr>,
                      dstRect =
                        \<lparr>drawX = (real (videoWidth (video env)) -
                                   real (videoHeight (video env) div 2) *
                                     (real (videoWidth (video env)) /
                                      real (videoHeight (video env)))) / 2,
                         drawY = 0,
                         drawWidth = real (videoHeight (video env) div 2) *
                                       (real (videoWidth (video env)) /
                                        real (videoHeight (video env))),
                         drawHeight = real (videoHeight (video env) div 2)\<rparr>,
                      under = defaultState
                        \<lparr>transform :=
                           (if facing env = User
                            then \<lparr>scaleX = - 1, scaleY = 1,
                                  shiftX = real (videoWidth (video env)), shiftY = 0\<rparr>
                            else identityMatrix)\<rparr>\<rparr>
                     x y (0, 0, 0, 0) \<and>
                 pixelOf c x (y + videoHeight (video env) div 2) =
                   stored (pixelOf (cameraLayer_part000 env c0) x y) \<and>
                 pixelOf c x y = stored (invertPixel (pixelOf (cameraLayer_part000 env c0) x y)) \<and>
                 (alpha (pixelOf (cameraLayer_part000 env c0) x y) = 255 \<longrightarrow>
                    pixelOf c x (y + videoHeight (video env) div 2) =
                      pixelOf (cameraLayer_part000 env c0) x y \<and>
                    pixelOf c x y = invertPixel (pixelOf (cameraLayer_part000 env c0) x y)) \<and>
                 (alpha (pixelOf (cameraLayer_part000 env c0) x y) = 0 \<longrightarrow>
                    pixelOf c x (y + videoHeight (video env) div 2) = (0, 0, 0, 0) \<and>
                    pixelOf c x y = (0, 0, 0, 0))))"
proof (intro conjI impI)
  assume "readyState (video env) = HAVE_ENOUGH_DATA"
  then show "processFrame env c0 = drawProduct env (splitView env c0)"
    by (simp add: processFrame_def)
next
  assume "readyState (video env) = HAVE_ENOUGH_DATA \<and> productImageRef env = None"
  then show "processFrame env c0 = splitView env c0"
    by (simp add: processFrame_def drawProduct_def)
next
  assume a: "x < STORY_WIDTH \<and> y < halfHeight"
  then have x: "x < STORY_WIDTH" and y: "y < halfHeight" by simp_all
  show "byteAt (splitView env c0) x (y + halfHeight) k = byteAt (cameraLayer env c0) x y k"
    by (rule splitView_bytes(1) [OF x y assms])
  show "uint (byteAt (splitView env c0) x y k) = 255 - uint (byteAt (cameraLayer env c0) x y k)"
    if "k < 3"
    using that splitView_bytes(2) [OF x y assms] by (simp add: uint_toUint8Clamp_invert)
  show "byteAt (splitView env c0) x y k = byteAt (cameraLayer env c0) x y k" if "k = 3"
    using that splitView_bytes(2) [OF x y assms] by simp
next
  assume a: "x < STORY_WIDTH \<and> y < halfHeight \<and>
             0 < videoWidth (video env) \<and> 0 < videoHeight (video env)"
  then have x: "x < STORY_WIDTH" and y: "y < halfHeight"
    and vw: "0 < videoWidth (video env)" and vh: "0 < videoHeight (video env)" by simp_all
  obtain r where r: "fitVideo (videoWidth (video env)) (videoHeight (video env)) = Some r"
    using fitVideo_Some [OF vw vh] by blast
  have x': "x < 1080" and y': "y < 1920" and y'': "y < 960"
    using x y by (simp_all add: STORY_WIDTH_def halfHeight_eq)
  have d: "drawn (splitView env c0) =
                   drawn c0 @
                   [\<lparr>painted = FillColor ''#000000'', srcRect = None,
                     dstRect = \<lparr>drawX = 0, drawY = 0, drawWidth = 1080, drawHeight = 1920\<rparr>,
                     under = defaultState\<rparr>,
                    \<lparr>painted = VideoFrame, srcRect = None, dstRect = r,
                     under = defaultState
                       \<lparr>transform :=
                          (if facing env = User
                           then \<lparr>scaleX = - 1, scaleY = 1, shiftX = 1080, shiftY = 0\<rparr>
                           else identityMatrix),
                        clip := Some \<lparr>drawX = 0, drawY = 0, drawWidth = 1080,
                                       drawHeight = 960\<rparr>\<rparr>\<rparr>]"
    by (simp add: splitView_drawn cameraLayer_drawn r)
  have p: "pixelOf (cameraLayer env c0) x y =
                   (case raster env
                           \<lparr>painted = VideoFrame, srcRect = None, dstRect = r,
                            under = defaultState
                              \<lparr>transform :=
                                 (if facing env = User
                                  then \<lparr>scaleX = - 1, scaleY = 1, shiftX = 1080, shiftY = 0\<rparr>
                                  else identityMatrix),
                               clip := Some \<lparr>drawX = 0, drawY = 0, drawWidth = 1080,
                                              drawHeight = 960\<rparr>\<rparr>\<rparr>
                           x y (0, 0, 0, 255) of
                      (vr, vg, vb, va) \<Rightarrow> (vr, vg, vb, 255))"
    unfolding cameraLayer_pixel [OF x' y'] r using y'' by simp
  show "case fitVideo (videoWidth (video env)) (videoHeight (video env)) of
               None \<Rightarrow> False
             | Some r \<Rightarrow>
                 drawn (splitView env c0) =
                   drawn c0 @
                   [\<lparr>painted = FillColor ''#000000'', srcRect = None,
                     dstRect = \<lparr>drawX = 0, drawY = 0, drawWidth = 1080, drawHeight = 1920\<rparr>,
                     under = defaultState\<rparr>,
                    \<lparr>painted = VideoFrame, srcRect = None, dstRect = r,
                     under = defaultState
                       \<lparr>transform :=
                          (if facing env = User
                           then \<lparr>scaleX = - 1, scaleY = 1, shiftX = 1080, shiftY = 0\<rparr>
                           else identityMatrix),
                        clip := Some \<lparr>drawX = 0, drawY = 0, drawWidth = 1080,
                                       drawHeight = 960\<rparr>\<rparr>\<rparr>] \<and>
                 pixelOf (cameraLayer env c0) x y =
                   (case raster env
                           \<lparr>painted = VideoFrame, srcRect = None, dstRect = r,
                            under = defaultState
                              \<lparr>transform :=
                                 (if facing env = User
                                  then \<lparr>scaleX = - 1, scaleY = 1, shiftX = 1080, shiftY = 0\<rparr>
                                  else identityMatrix),
                               clip := Some \<lparr>drawX = 0, drawY = 0, drawWidth = 1080,
                                              drawHeight = 960\<rparr>\<rparr>\<rparr>
                           x y (0, 0, 0, 255) of
                      (vr, vg, vb, va) \<Rightarrow> (vr, vg, vb, 255)) \<and>
                 pixelOf (splitView env c0) x (y + halfHeight) = pixelOf (cameraLayer env c0) x y \<and>
                 pixelOf (splitView env c0) x y =
                   invertPixel (pixelOf (cameraLayer env c0) x y)"
    unfolding r option.case
    using d p splitView_pixels [OF x y, of env c0] by blast
next
  assume a: "x < videoWidth (video env) \<and> y < videoHeight (video env) div 2"
  then have x: "x < videoWidth (video env)" and y: "y < videoHeight (video env) div 2"
    by simp_all
  have y2: "y < videoHeight (video env)" using y by simp
  have nz: "videoWidth (video env) \<noteq> 0" "videoHeight (video env) \<noteq> 0" using x y by auto
  let ?cam = "cameraLayer_part000 env c0"
  from splitView_part000_pixels [OF x y, of c0]
  obtain c where c: "splitView_part000 env c0 = Inr c"
    and d: "drawn c = drawn ?cam"
    and b: "pixelOf c x (y + videoHeight (video env) div 2) = stored (pixelOf ?cam x y)"
    and t: "pixelOf c x y = stored (invertPixel (pixelOf ?cam x y))"
    by blast
  have dd: "drawn c =
                   drawn c0 @
                   [\<lparr>painted = VideoFrame,
                     srcRect = Some \<lparr>drawX = 0, drawY = 0,
                                     drawWidth = real (videoWidth (video env)),
                                     drawHeight = real (videoHeight (video env))\<rparr>,
                     dstRect =
                       \<lparr>drawX = (real (videoWidth (video env)) -
                                  real (videoHeight (video env) div 2) *
                                    (real (videoWidth (video env)) /
                                     real (videoHeight (video env)))) / 2,
                        drawY = 0,
                        drawWidth = real (videoHeight (video env) div 2) *
                                      (real (videoWidth (video env)) /
                                       real (videoHeight (video env))),
                        drawHeight = real (videoHeight (video env) div 2)\<rparr>,
                     under = defaultState
                       \<lparr>transform :=
                          (if facing env = User
                           then \<lparr>scaleX = - 1, scaleY = 1,
                                 shiftX = real (videoWidth (video env)), shiftY = 0\<rparr>
                           else identityMatrix)\<rparr>\<rparr>]"
    unfolding d cameraLayer_part000_drawn using nz by (simp only: if_False simp_thms)
  note pp = cameraLayer_part000_pixel [OF x y2, of c0]
  have o: "alpha (pixelOf ?cam x y) = 255 \<longrightarrow>
             pixelOf c x (y + videoHeight (video env) div 2) = pixelOf ?cam x y \<and>
             pixelOf c x y = invertPixel (pixelOf ?cam x y)"
    unfolding b t by (simp add: stored_opaque)
  have z: "alpha (pixelOf ?cam x y) = 0 \<longrightarrow>
             pixelOf c x (y + videoHeight (video env) div 2) = (0, 0, 0, 0) \<and>
             pixelOf c x y = (0, 0, 0, 0)"
    unfolding b t by (simp add: stored_transparent)
  show "case splitView_part000 env c0 of
               Inl e \<Rightarrow> False
             | Inr c \<Rightarrow>
                 drawn c =
                   drawn c0 @
                   [\<lparr>painted = VideoFrame,
                     srcRect = Some \<lparr>drawX = 0, drawY = 0,
                                     drawWidth = real (videoWidth (video env)),
                                     drawHeight = real (videoHeight (video env))\<rparr>,
                     dstRect =
                       \<lparr>drawX = (real (videoWidth (video env)) -
                                  real (videoHeight (video env) div 2) *
                                    (real (videoWidth (video env)) /
                                     real (videoHeight (video env)))) / 2,
                        drawY = 0,
                        drawWidth = real (videoHeight (video env) div 2) *
                                      (real (videoWidth (video env)) /
                                       real (videoHeight (video env))),
                        drawHeight = real (videoHeight (video env) div 2)\<rparr>,
                     under = defaultState
                       \<lparr>transform :=
                          (if facing env = User
                           then \<lparr>scaleX = - 1, scaleY = 1,
                                 shiftX = real (videoWidth (video env)), shiftY = 0\<rparr>
                           else identityMatrix)\<rparr>\<rparr>] \<and>
                 pixelOf (cameraLayer_part000 env c0) x y =
                   paintPixel (raster env)
                     \<lparr>painted = VideoFrame,
                      srcRect = Some \<lparr>drawX = 0, drawY = 0,
                                      drawWidth = real (videoWidth (video env)),
                                      drawHeight = real (videoHeight (video env))\<rparr>,
                      dstRect =
                        \<lparr>drawX = (real (videoWidth (video env)) -
                                   real (videoHeight (video env) div 2) *
                                     (real (videoWidth (video env)) /
                                      real (videoHeight (video env)))) / 2,
                         drawY = 0,
                         drawWidth = real (videoHeight (video env) div 2) *
                                       (real (videoWidth (video env)) /
                                        real (videoHeight (video env))),
                         drawHeight = real (videoHeight (video env) div 2)\<rparr>,
                      under = defaultState
                        \<lparr>transform :=
                           (if facing env = User
                            then \<lparr>scaleX = - 1, scaleY = 1,
                                  shiftX = real (videoWidth (video env)), shiftY = 0\<rparr>
                            else identityMatrix)\<rparr>\<rparr>
                     x y (0, 0, 0, 0) \<and>
                 pixelOf c x (y + videoHeight (video env) div 2) =
                   stored (pixelOf (cameraLayer_part000 env c0) x y) \<and>
                 pixelOf c x y = stored (invertPixel (pixelOf (cameraLayer_part000 env c0) x y)) \<and>
                 (alpha (pixelOf (cameraLayer_part000 env c0) x y) = 255 \<longrightarrow>
                    pixelOf c x (y + videoHeight (video env) div 2) =
                      pixelOf (cameraLayer_part000 env c0) x y \<and>
                    pixelOf c x y = invertPixel (pixelOf (cameraLayer_part000 env c0) x y)) \<and>
                 (alpha (pixelOf (cameraLayer_part000 env c0) x y) = 0 \<longrightarrow>
                    pixelOf c x (y + videoHeight (video env) div 2) = (0, 0, 0, 0) \<and>
                    pixelOf c x y = (0, 0, 0, 0))"
    unfolding c sum.case
    using dd pp b t o z by blast
qed

lemma splitView_part000_example:
  "(case splitView_part000
           \<lparr>video = \<lparr>readyState = 4, videoWidth = 4, videoHeight = 2\<rparr>, facing = User,
            productImageRef = None, raster = sampleRaster\<rparr> newCanvas of
      Inl e \<Rightarrow> []
    | Inr c \<Rightarrow> bitmap c) =
   [0, 0, 0, 0, 55, 155, 205, 255, 55, 155, 205, 255, 0, 0, 0, 0,
    0, 0, 0, 0, 200, 100, 50, 255, 200, 100, 50, 255, 0, 0, 0, 0]"
  by (simp add: splitView_part000_def cameraLayer_part000_def Let_def setWidth_def setHeight_def
      save_def restore_def translate_def scale_def drawImage_def paintCall_def rasterize_def
      paintPixel_def solidFill_def alpha_def stored_def deviceRect_def
      inClip_def defaultState_def identityMatrix_def newCanvas_def sampleRaster_def
      copyTopToBottom_def invertTop_def getImageData_def putImageData_def invertFilter_def
      invertLoop.simps invertAt_def toUint8Clamp_def channel_def pixelAt_def upt_rec)

theorem splitView_same_frame_witness:
  "(0::nat) < 4 \<and> (1::nat) < STORY_WIDTH \<and> (0::nat) < halfHeight \<and>
   (1::nat) < 4 \<and> (0::nat) < 2 div 2 \<and>
   pixelOf (splitView \<lparr>video = \<lparr>readyState = 4, videoWidth = 4, videoHeight = 2\<rparr>,
              facing = User, productImageRef = None, raster = sampleRaster\<rparr> newCanvas)
      1 (0 + halfHeight) = (200, 100, 50, 255) \<and>
   pixelOf (splitView \<lparr>video = \<lparr>readyState = 4, videoWidth = 4, videoHeight = 2\<rparr>,
              facing = User, productImageRef = None, raster = sampleRaster\<rparr> newCanvas)
      1 0 = (55, 155, 205, 255) \<and>
   (case splitView_part000
           \<lparr>video = \<lparr>readyState = 4, videoWidth = 4, videoHeight = 2\<rparr>, facing = User,
            productImageRef = None, raster = sampleRaster\<rparr> newCanvas of
      Inl e \<Rightarrow> []
    | Inr c \<Rightarrow> bitmap c) =
   [0, 0, 0, 0, 55, 155, 205, 255, 55, 155, 205, 255, 0, 0, 0, 0,
    0, 0, 0, 0, 200, 100, 50, 255, 200, 100, 50, 255, 0, 0, 0, 0]"
proof -
  let ?env = "\<lparr>video = \<lparr>readyState = 4, videoWidth = 4, videoHeight = 2\<rparr>,
              facing = User, productImageRef = None, raster = sampleRaster\<rparr>"
  have f: "fitVideo 4 2 =
     Some \<lparr>drawX = - 420, drawY = 0, drawWidth = 1920, drawHeight = 960\<rparr>"
    by (simp add: fitVideo_def targetAspect_eq halfHeight_eq STORY_WIDTH_def Let_def)
  have k: "(0::nat) < 4" by simp
  have "pixelOf (splitView ?env newCanvas) 1 (0 + halfHeight) = (200, 100, 50, 255) \<and>
        pixelOf (splitView ?env newCanvas) 1 0 = (55, 155, 205, 255)"
    using splitView_same_frame [OF k, of ?env newCanvas 1 0]
    by (simp add: f STORY_WIDTH_def halfHeight_eq sampleRaster_def inClip_def deviceRect_def
        defaultState_def invertPixel_def toUint8Clamp_def)
  then show ?thesis
    using splitView_part000_example by (simp add: STORY_WIDTH_def halfHeight_eq)
qed

subsection \<open>Recording, conversion and sharing\<close>

lemma rerender_keeps [simp]:
  "recordingState (rerender s) = recordingState s"
  "recordedVideoUrl (rerender s) = recordedVideoUrl s"
  "mp4BlobRef (rerender s) = mp4BlobRef s"
  "stopQueued (rerender s) = stopQueued s"
  "conversion (rerender s) = conversion s"
  "mediaRecorderRef (rerender s) = mediaRecorderRef s"
  "effects (rerender s) = effects s"
  by (simp_all add: rerender_def split: option.splits)

lemma renderSplitView_keeps [simp]:
  "recordingState (renderSplitView f s) = recordingState s"
  "recordedVideoUrl (renderSplitView f s) = recordedVideoUrl s"
  "stopQueued (renderSplitView f s) = stopQueued s"
  "conversion (renderSplitView f s) = conversion s"
  "mediaRecorderRef (renderSplitView f s) = mediaRecorderRef s"
  by (simp_all add: renderSplitView_def split: option.splits)

lemma switchCamera_keeps [simp]:
  "recordingState (switchCamera s) = recordingState s"
  "recordedVideoUrl (switchCamera s) = recordedVideoUrl s"
  "stopQueued (switchCamera s) = stopQueued s"
  "conversion (switchCamera s) = conversion s"
  "mediaRecorderRef (switchCamera s) = mediaRecorderRef s"
  by (simp_all add: switchCamera_def stopTracks_def Let_def split: option.splits)

lemma recorderActive_keeps [simp]:
  "recorderActive (rerender s) = recorderActive s"
  "recorderActive (renderSplitView f s) = recorderActive s"
  "recorderActive (switchCamera s) = recorderActive s"
  by (simp_all add: recorderActive_def)

lemma inv_initial: "inv (initial v)"
  by (simp add: inv_def initial_def recorderActive_def)

lemma step_inv: "inv s \<Longrightarrow> step e s = Some s' \<Longrightarrow> inv s'"
  by (cases e)
     (auto simp: inv_def recorderActive_def previewShown_def startRecording_def stopRecording_def
        ondataavailable_def onstopBegin_def onstopSettle_def resetCamera_def downloadVideo_def
        shareVideo_def Let_def
        split: if_splits option.splits sum.splits prod.splits)

lemma run_inv: "inv s \<Longrightarrow> run es s = Some s' \<Longrightarrow> inv s'"
proof (induction es arbitrary: s)
  case Nil
  then show ?case by simp
next
  case (Cons e es)
  then show ?case by (auto split: option.splits dest: step_inv)
qed

lemma step_edge:
  "inv s \<Longrightarrow> step e s = Some s' \<Longrightarrow>
   recordingState s' = recordingState s \<or>
   (recordingState s = Idle \<and> recordingState s' = Recording \<and> e = ClickRecord) \<or>
   (recordingState s = Recording \<and> recordingState s' = Converting \<and> e = RecorderStopped) \<or>
   (recordingState s = Converting \<and> recordingState s' = Preview \<and> e = ConversionSettled) \<or>
   (recordingState s = Preview \<and> recordingState s' = Idle \<and> e = ClickReset)"
  by (cases e)
     (auto simp: inv_def recorderActive_def previewShown_def startRecording_def stopRecording_def
        ondataavailable_def onstopBegin_def onstopSettle_def resetCamera_def downloadVideo_def
        shareVideo_def Let_def
        split: if_splits option.splits sum.splits prod.splits)

text \<open>
  Claim C6. The recording state has the four values \<^verbatim>\<open>'idle'\<close>, \<^verbatim>\<open>'recording'\<close>,
  \<^verbatim>\<open>'preview'\<close> and \<^verbatim>\<open>'converting'\<close>, and in every state the component can reach from its
  initial state, whatever happens next either leaves the recording state as it is or
  follows the cycle: idle to recording by \<^verbatim>\<open>startRecording\<close>, recording to converting by
  the recorder's stop handler, converting to preview when the conversion has settled,
  preview to idle by \<^verbatim>\<open>resetCamera\<close>.
\<close>

theorem recordingState_cycle:
  assumes "run es (initial vp9) = Some s" and "step e s = Some s'"
  shows "recordingState s \<in> {Idle, Recording, Preview, Converting} \<and>
   (recordingState s' = recordingState s \<or>
    (recordingState s = Idle \<and> recordingState s' = Recording \<and> e = ClickRecord) \<or>
    (recordingState s = Recording \<and> recordingState s' = Converting \<and> e = RecorderStopped) \<or>
    (recordingState s = Converting \<and> recordingState s' = Preview \<and> e = ConversionSettled) \<or>
    (recordingState s = Preview \<and> recordingState s' = Idle \<and> e = ClickReset))"
proof
  show "recordingState s \<in> {Idle, Recording, Preview, Converting}"
    by (cases "recordingState s") simp_all
  show "recordingState s' = recordingState s \<or>
    (recordingState s = Idle \<and> recordingState s' = Recording \<and> e = ClickRecord) \<or>
    (recordingState s = Recording \<and> recordingState s' = Converting \<and> e = RecorderStopped) \<or>
    (recordingState s = Converting \<and> recordingState s' = Preview \<and> e = ConversionSettled) \<or>
    (recordingState s = Preview \<and> recordingState s' = Idle \<and> e = ClickReset)"
    using step_edge [OF run_inv [OF inv_initial assms(1)] assms(2)] .
qed

text \<open>One recording, event by event, and a reset that is not on the screen.\<close>

lemma sample_run:
  "map (\<lambda>es. map_option recordingState (run es (initial True)))
     [[StreamAcquired User sampleStream, LoadedMetadata],
      [StreamAcquired User sampleStream, LoadedMetadata, ClickRecord],
      [StreamAcquired User sampleStream, LoadedMetadata, ClickRecord, DataAvailable sampleChunk,
       ClickStop],
      [StreamAcquired User sampleStream, LoadedMetadata, ClickRecord, DataAvailable sampleChunk,
       ClickStop, RecorderStopped],
      [StreamAcquired User sampleStream, LoadedMetadata, ClickRecord, DataAvailable sampleChunk,
       ClickStop, RecorderStopped, ConversionSettled],
      [StreamAcquired User sampleStream, LoadedMetadata, ClickRecord, DataAvailable sampleChunk,
       ClickStop, RecorderStopped, ConversionSettled, ClickReset],
      [StreamAcquired User sampleStream, LoadedMetadata, ClickRecord, ClickReset]] =
   [Some Idle, Some Recording, Some Recording, Some Converting, Some Preview, Some Idle, None]"
  by (simp add: initial_def sampleStream_def sampleChunk_def previewShown_def recorderActive_def
      startRecording_def stopRecording_def ondataavailable_def onstopBegin_def onstopSettle_def
      resetCamera_def convertToMp4_def newBlob_def captureStream_def getAudioTracks_def
      addTrack_def isAudio_def renderSplitView_def rerender_def Let_def)


theorem recordingState_cycle_witness:
  "run [StreamAcquired User sampleStream, LoadedMetadata] (initial True) =
     Some ((initial True)\<lparr>cameraRequests := [], streamRef := Some sampleStream,
             cameraReady := True, renderLoop := Some (0, User)\<rparr>) \<and>
   step ClickRecord ((initial True)\<lparr>cameraRequests := [], streamRef := Some sampleStream,
             cameraReady := True, renderLoop := Some (0, User)\<rparr>) =
     Some (startRecording ((initial True)\<lparr>cameraRequests := [], streamRef := Some sampleStream,
             cameraReady := True, renderLoop := Some (0, User)\<rparr>)) \<and>
   recordingState ((initial True)\<lparr>cameraRequests := [], streamRef := Some sampleStream,
             cameraReady := True, renderLoop := Some (0, User)\<rparr>) = Idle \<and>
   recordingState
     (startRecording ((initial True)\<lparr>cameraRequests := [], streamRef := Some sampleStream,
             cameraReady := True, renderLoop := Some (0, User)\<rparr>)) =
     Recording"
proof -
  let ?s = "(initial True)\<lparr>cameraRequests := [], streamRef := Some sampleStream,
             cameraReady := True, renderLoop := Some (0, User)\<rparr>"
  have r: "run [StreamAcquired User sampleStream, LoadedMetadata] (initial True) = Some ?s"
    by (simp add: initial_def renderSplitView_def list_all_iff)
  have st: "step ClickRecord ?s = Some (startRecording ?s)"
    by (simp add: initial_def previewShown_def)
  have i: "recordingState ?s = Idle" by (simp add: initial_def)
  have n: "recordingState (startRecording ?s) \<noteq> Idle"
    by (simp add: initial_def startRecording_def Let_def)
  show ?thesis
    using recordingState_cycle [OF r st] r st i n by auto
qed

text \<open>
  Claim C5. When the transcoding throws, the stop handler falls back to the WebM blob: the
  recorded-video URL is a URL of that blob and the state becomes \<^verbatim>\<open>'preview'\<close>. Whether
  the conversion succeeds or not, the handler ends in the preview with a URL of the blob
  it kept, and the queued stop event followed by the settling of the conversion is such a
  run of the handler.
\<close>

theorem onstop_reaches_preview:
  "recordingState (onstop s) = Preview \<and>
   previewShown (onstop s) \<and>
   (case convertToMp4 (ffmpegRef s) (newBlob (chunksRef s) ''video/webm'') of
      Inl err \<Rightarrow>
        recordedVideoUrl (onstop s) = Some (ObjectURL (newBlob (chunksRef s) ''video/webm'')) \<and>
        mp4BlobRef (onstop s) = Some (newBlob (chunksRef s) ''video/webm'')
    | Inr mp4Blob \<Rightarrow>
        recordedVideoUrl (onstop s) = Some (ObjectURL mp4Blob) \<and>
        mp4BlobRef (onstop s) = Some mp4Blob) \<and>
   (stopQueued s \<longrightarrow>
      recordingState (onstopBegin (s\<lparr>stopQueued := False\<rparr>)) = Converting \<and>
      run [RecorderStopped, ConversionSettled] s = Some (onstop (s\<lparr>stopQueued := False\<rparr>)))"
  by (simp add: onstop_def onstopBegin_def onstopSettle_def previewShown_def Let_def
      split: sum.splits)

theorem onstop_reaches_preview_witness:
  "stopQueued ((initial True)\<lparr>recordingState := Recording, chunksRef := [sampleChunk],
                 stopQueued := True\<rparr>) \<and>
   convertToMp4 None (newBlob [sampleChunk] ''video/webm'') = Inl ''FFmpeg not loaded'' \<and>
   map_option recordedVideoUrl
     (run [RecorderStopped, ConversionSettled]
        ((initial True)\<lparr>recordingState := Recording, chunksRef := [sampleChunk],
           stopQueued := True\<rparr>)) =
     Some (Some (ObjectURL \<lparr>blobData = [26, 69, 223, 163], blobType = ''video/webm''\<rparr>)) \<and>
   map_option recordingState
     (run [RecorderStopped, ConversionSettled]
        ((initial True)\<lparr>recordingState := Recording, chunksRef := [sampleChunk],
           stopQueued := True\<rparr>)) = Some Preview"
  using onstop_reaches_preview [of "(initial True)\<lparr>recordingState := Recording,
          chunksRef := [sampleChunk], stopQueued := True\<rparr>"]
  by (simp add: initial_def convertToMp4_def newBlob_def sampleChunk_def onstop_def
      onstopBegin_def onstopSettle_def Let_def)

lemma foldl_addTrack_set: "set (foldl (\<lambda>st t. addTrack t st) st ts) = set st \<union> set ts"
  by (induction ts arbitrary: st) (auto simp: addTrack_def)

lemma foldl_addTrack_prefix: "\<exists>zs. foldl (\<lambda>st t. addTrack t st) st ts = st @ zs"
proof (induction ts arbitrary: st)
  case Nil
  then show ?case by simp
next
  case (Cons t ts)
  obtain zs where "foldl (\<lambda>st t. addTrack t st) (addTrack t st) ts = addTrack t st @ zs"
    using Cons.IH by blast
  then show ?case by (auto simp: addTrack_def split: if_splits)
qed

lemma startRecording_tracks:
  assumes "combinedCanvasRef s = Some canvas" and "streamRef s = Some stream"
    and "vp9Supported s"
  shows "recordingState (startRecording s) = Recording \<and>
         (case mediaRecorderRef (startRecording s) of
            None \<Rightarrow> False
          | Some r \<Rightarrow>
              recState r = RecRecording \<and>
              hd (recStream r) = CanvasCaptureTrack canvas 30 \<and>
              set (recStream r) =
                insert (CanvasCaptureTrack canvas 30) {t. t \<in> set stream \<and> isAudio t})"
proof -
  let ?st = "foldl (\<lambda>st t. addTrack t st) (captureStream canvas 30) (getAudioTracks stream)"
  have m: "mediaRecorderRef (startRecording s) =
      Some \<lparr>recStream = ?st, mimeType = ''video/webm;codecs=vp9'', recState = RecRecording,
            timeslice = Some 100, timerInterval = True\<rparr>"
    and r: "recordingState (startRecording s) = Recording"
    using assms by (simp_all add: startRecording_def Let_def)
  obtain zs where "?st = captureStream canvas 30 @ zs"
    using foldl_addTrack_prefix by blast
  then have h: "hd ?st = CanvasCaptureTrack canvas 30" by (simp add: captureStream_def)
  have e: "set ?st = insert (CanvasCaptureTrack canvas 30) {t. t \<in> set stream \<and> isAudio t}"
    by (auto simp: foldl_addTrack_set captureStream_def getAudioTracks_def)
  show ?thesis unfolding m r using h e by simp
qed

lemma sampleEnv_frame:
  "drawn (processFrame (sampleEnv\<lparr>facing := f\<rparr>) c) =
     drawn c @
     [\<lparr>painted = FillColor ''#000000'', srcRect = None,
       dstRect = \<lparr>drawX = 0, drawY = 0, drawWidth = 1080, drawHeight = 1920\<rparr>,
       under = defaultState\<rparr>,
      \<lparr>painted = VideoFrame, srcRect = None,
       dstRect = \<lparr>drawX = - 940 / 3, drawY = 0, drawWidth = 5120 / 3, drawHeight = 960\<rparr>,
       under = defaultState
         \<lparr>transform := (if f = User
                         then \<lparr>scaleX = - 1, scaleY = 1, shiftX = 1080, shiftY = 0\<rparr>
                         else identityMatrix),
          clip := Some \<lparr>drawX = 0, drawY = 0, drawWidth = 1080, drawHeight = 960\<rparr>\<rparr>\<rparr>]"
proof -
  have f: "fitVideo 1920 1080 =
     Some \<lparr>drawX = - 940 / 3, drawY = 0, drawWidth = 5120 / 3, drawHeight = 960\<rparr>"
    by (simp add: fitVideo_def targetAspect_eq halfHeight_eq STORY_WIDTH_def Let_def)
  have r: "readyState (video (sampleEnv\<lparr>facing := f\<rparr>)) = HAVE_ENOUGH_DATA"
    by (simp add: sampleEnv_def HAVE_ENOUGH_DATA_def)
  show ?thesis
    unfolding processFrame_drawn [OF r] by (simp add: sampleEnv_def f)
qed

text \<open>
  Claim C4 says that the stream handed to the recorder is built from the composited
  canvas. That holds for the first recording: the canvas captured is the one the
  animation loop draws on. After a preview and \<^verbatim>\<open>resetCamera\<close> it does not: the preview
  unmounted the canvas, the reset mounted a new one, and the loop (started once, when the
  metadata of the stream arrived) still draws on the old one. \<^verbatim>\<open>startRecording\<close> captures
  the canvas that is mounted, on which nothing has been drawn, with the audio track of the
  camera.
\<close>

theorem startRecording_after_reset:
  "map_option (\<lambda>s. (combinedCanvasRef s, renderLoop s, map_option recStream (mediaRecorderRef s)))
     (run [StreamAcquired User sampleStream, LoadedMetadata, AnimationFrame sampleEnv,
           ClickRecord] (initial True)) =
     Some (Some 0, Some (0, User), Some [CanvasCaptureTrack 0 30, CameraTrack AudioTrack 1]) \<and>
   map_option (\<lambda>s. (combinedCanvasRef s, renderLoop s, map_option recStream (mediaRecorderRef s),
                     recordingState s))
     (run [StreamAcquired User sampleStream, LoadedMetadata, AnimationFrame sampleEnv,
           ClickRecord, DataAvailable sampleChunk, ClickStop, RecorderStopped,
           ConversionSettled, ClickReset, AnimationFrame sampleEnv, ClickRecord]
        (initial True)) =
     Some (Some 1, Some (0, User), Some [CanvasCaptureTrack 1 30, CameraTrack AudioTrack 1],
           Recording) \<and>
   map_option (\<lambda>s. drawn (canvases s 1))
     (run [StreamAcquired User sampleStream, LoadedMetadata, AnimationFrame sampleEnv,
           ClickRecord, DataAvailable sampleChunk, ClickStop, RecorderStopped,
           ConversionSettled, ClickReset, AnimationFrame sampleEnv, ClickRecord]
        (initial True)) = Some [] \<and>
   map_option (\<lambda>s. map painted (drawn (canvases s 0)))
     (run [StreamAcquired User sampleStream, LoadedMetadata, AnimationFrame sampleEnv,
           ClickRecord, DataAvailable sampleChunk, ClickStop, RecorderStopped,
           ConversionSettled, ClickReset, AnimationFrame sampleEnv, ClickRecord]
        (initial True)) =
     Some [FillColor ''#000000'', VideoFrame, FillColor ''#000000'', VideoFrame]"
  by (simp add: initial_def sampleStream_def sampleChunk_def previewShown_def recorderActive_def
      startRecording_def stopRecording_def ondataavailable_def onstopBegin_def onstopSettle_def
      resetCamera_def convertToMp4_def newBlob_def captureStream_def getAudioTracks_def
      addTrack_def isAudio_def renderSplitView_def rerender_def Let_def sampleEnv_frame
      newCanvas_def)

text \<open>
  A recording started between \<^verbatim>\<open>switchCamera\<close> and the arrival of the new stream: the
  button is enabled (\<^verbatim>\<open>cameraReady\<close> is still true), the audio track added to the recorded
  stream is one that \<^verbatim>\<open>switchCamera\<close> has stopped, and no loop draws on the canvas.
\<close>

lemma record_after_switchCamera:
  "map_option (\<lambda>s. (map_option recStream (mediaRecorderRef s), endedTracks s, renderLoop s,
                     recordingState s))
     (run [StreamAcquired User sampleStream, LoadedMetadata, ClickSwitchCamera, ClickRecord]
        (initial True)) =
     Some (Some [CanvasCaptureTrack 0 30, CameraTrack AudioTrack 1],
           [CameraTrack VideoTrack 0, CameraTrack AudioTrack 1], None, Recording)"
  by (simp add: initial_def sampleStream_def previewShown_def startRecording_def
      switchCamera_def stopTracks_def captureStream_def getAudioTracks_def addTrack_def
      isAudio_def renderSplitView_def Let_def)

lemma shareVideo_no_blob: "mp4BlobRef s = None \<Longrightarrow> shareVideo nav s = Inr s"
  by (simp add: shareVideo_def)

lemma shareVideo_no_share:
  "mp4BlobRef s = Some b \<Longrightarrow> \<not> hasShare nav \<Longrightarrow> shareVideo nav s = Inr (downloadVideo s)"
  by (simp add: shareVideo_def)

lemma shareVideo_canShare_defined:
  "mp4BlobRef s = Some b \<Longrightarrow> hasShare nav \<Longrightarrow> canShare nav = Some accepts \<Longrightarrow>
   shareVideo nav s =
     (if accepts \<lparr>fileBlob = b, fileType = ''video/mp4''\<rparr>
      then Inr (s\<lparr>effects := effects s @ [Shared \<lparr>fileBlob = b, fileType = ''video/mp4''\<rparr>]\<rparr>)
      else Inr (downloadVideo s))"
  by (simp add: shareVideo_def Let_def)

text \<open>
  Claim C7 says that in every case but the one where \<^verbatim>\<open>navigator.share\<close> exists and
  \<^verbatim>\<open>navigator.canShare\<close> accepts the file, \<^verbatim>\<open>shareVideo\<close> falls back to \<^verbatim>\<open>downloadVideo\<close>.
  In a browser that defines \<^verbatim>\<open>navigator.share\<close> but not \<^verbatim>\<open>navigator.canShare\<close> the call
  of \<^verbatim>\<open>canShare\<close> throws: the video is neither shared nor downloaded.
\<close>

theorem shareVideo_canShare_missing:
  "shareVideo \<lparr>hasShare = True, canShare = None\<rparr>
     ((initial True)\<lparr>recordingState := Preview,
        recordedVideoUrl := Some (ObjectURL \<lparr>blobData = [0, 0, 0, 24], blobType = ''video/mp4''\<rparr>),
        mp4BlobRef := Some \<lparr>blobData = [0, 0, 0, 24], blobType = ''video/mp4''\<rparr>\<rparr>) =
     Inl TypeError \<and>
   map_option effects
     (step (ClickShare \<lparr>hasShare = True, canShare = None\<rparr>)
        ((initial True)\<lparr>recordingState := Preview,
           recordedVideoUrl := Some (ObjectURL \<lparr>blobData = [0, 0, 0, 24], blobType = ''video/mp4''\<rparr>),
           mp4BlobRef := Some \<lparr>blobData = [0, 0, 0, 24], blobType = ''video/mp4''\<rparr>\<rparr>)) =
     Some [] \<and>
   map_option effects
     (step (ClickShare \<lparr>hasShare = False, canShare = None\<rparr>)
        ((initial True)\<lparr>recordingState := Preview,
           recordedVideoUrl := Some (ObjectURL \<lparr>blobData = [0, 0, 0, 24], blobType = ''video/mp4''\<rparr>),
           mp4BlobRef := Some \<lparr>blobData = [0, 0, 0, 24], blobType = ''video/mp4''\<rparr>\<rparr>)) =
     Some [Downloaded (ObjectURL \<lparr>blobData = [0, 0, 0, 24], blobType = ''video/mp4''\<rparr>)]"
  by (simp add: shareVideo_def downloadVideo_def initial_def previewShown_def Let_def)

end
